theory Spec2Isabelle
  imports Complex_Main
begin

section \<open>Risk status of the hazard predictors\<close>

text \<open>
  \<^verbatim>\<open>FloodPredictor._get_risk_status\<close> and \<^verbatim>\<open>FirePredictor._get_risk_status\<close>
  (models/flood_predictor.py, models/fire_predictor.py). Both take the combined risk
  score on the predictors' 0..1 scale (the dictionary entry \<^verbatim>\<open>risk_score\<close> is that
  score times 100) and run the same chain of strict comparisons; they differ in the
  labels they return. Scores are modelled as reals, the literals 0.8, 0.6, 0.4 and 0.2
  as the numbers they denote.
\<close>

datatype flood_status = FloodCritical | FloodHigh | FloodModerate | FloodLow | FloodMinimal

datatype fire_status = FireExtreme | FireVeryHigh | FireHigh | FireModerate | FireLow

definition flood_get_risk_status :: "real \<Rightarrow> flood_status" where
  "flood_get_risk_status score =
     (if score > 0.8 then FloodCritical
      else if score > 0.6 then FloodHigh
      else if score > 0.4 then FloodModerate
      else if score > 0.2 then FloodLow
      else FloodMinimal)"

definition fire_get_risk_status :: "real \<Rightarrow> fire_status" where
  "fire_get_risk_status score =
     (if score > 0.8 then FireExtreme
      else if score > 0.6 then FireVeryHigh
      else if score > 0.4 then FireHigh
      else if score > 0.2 then FireModerate
      else FireLow)"

text \<open>
  The severity bands as the specification words them, on the 0..100 scale, with
  \<open>None\<close> for "no alert". This definition follows the specification, not the source;
  it is what the source functions are compared with.
\<close>

datatype severity = Critical | High | Moderate | Low

definition spec_severity :: "real \<Rightarrow> severity option" where
  "spec_severity s =
     (if s \<ge> 80 then Some Critical
      else if s \<ge> 60 then Some High
      else if s \<ge> 40 then Some Moderate
      else if s \<ge> 20 then Some Low
      else None)"

text \<open>The band a flood status label stands for.\<close>

fun flood_band :: "flood_status \<Rightarrow> severity option" where
  "flood_band FloodCritical = Some Critical"
| "flood_band FloodHigh = Some High"
| "flood_band FloodModerate = Some Moderate"
| "flood_band FloodLow = Some Low"
| "flood_band FloodMinimal = None"

section \<open>Per-pollutant AQI for PM2.5\<close>

text \<open>
  \<^verbatim>\<open>PollutionPredictor._calculate_pm25_aqi\<close> (models/pollution_predictor.py): a linear
  scan of the breakpoint table, first matching row wins, 500.0 when no row matches.
\<close>

definition pm25_breakpoints :: "(real \<times> real \<times> real \<times> real) list" where
  "pm25_breakpoints =
     [(0, 12, 0, 50),
      (12.1, 35.4, 51, 100),
      (35.5, 55.4, 101, 150),
      (55.5, 150.4, 151, 200),
      (150.5, 250.4, 201, 300),
      (250.5, 500, 301, 500)]"

fun aqi_scan :: "(real \<times> real \<times> real \<times> real) list \<Rightarrow> real \<Rightarrow> real" where
  "aqi_scan [] x = 500.0"
| "aqi_scan ((bp_lo, bp_hi, aqi_lo, aqi_hi) # rest) x =
     (if bp_lo \<le> x \<and> x \<le> bp_hi
      then aqi_lo + (x - bp_lo) / (bp_hi - bp_lo) * (aqi_hi - aqi_lo)
      else aqi_scan rest x)"

definition calculate_pm25_aqi :: "real \<Rightarrow> real" where
  "calculate_pm25_aqi pm25 = aqi_scan pm25_breakpoints pm25"

text \<open>The input lies in some row of the table.\<close>

definition in_some_breakpoint :: "(real \<times> real \<times> real \<times> real) list \<Rightarrow> real \<Rightarrow> bool" where
  "in_some_breakpoint bps x = list_ex (\<lambda>(bp_lo, bp_hi, aqi_lo, aqi_hi). bp_lo \<le> x \<and> x \<le> bp_hi) bps"

section \<open>Python values, the world and its collaborators\<close>

text \<open>
  Alerts, readings and websocket messages are Python dictionaries with string keys and
  JSON-like values. A dictionary is an association list in insertion order whose keys are
  distinct; \<open>dict_get\<close> is \<^verbatim>\<open>d.get(k, default)\<close> and \<open>dict_set\<close> is \<^verbatim>\<open>d[k] = v\<close>.
\<close>

datatype pyval =
    PNone
  | PBool bool
  | PInt int
  | PStr string
  | PList "pyval list"
  | PDict "(string \<times> pyval) list"

type_synonym pydict = "(string \<times> pyval) list"

definition dict_get :: "pydict \<Rightarrow> string \<Rightarrow> pyval \<Rightarrow> pyval" where
  "dict_get d k dflt = (case map_of d k of Some v \<Rightarrow> v | None \<Rightarrow> dflt)"

fun dict_set :: "(string \<times> 'v) list \<Rightarrow> string \<Rightarrow> 'v \<Rightarrow> (string \<times> 'v) list" where
  "dict_set [] k v = [(k, v)]"
| "dict_set ((k', v') # rest) k v =
     (if k' = k then (k, v) # rest else (k', v') # dict_set rest k v)"

definition dict_keys :: "pydict \<Rightarrow> string list" where
  "dict_keys d = map fst d"

text \<open>
  Exceptions are values. Only subclasses of \<^verbatim>\<open>Exception\<close> are modelled, which is what
  every \<^verbatim>\<open>except Exception\<close> clause of the source catches; \<open>HTTPException\<close> is what the
  request layer raises, with its status code and detail. The string of a \<open>PyError\<close> names
  the exception and stands for its text where the source takes \<^verbatim>\<open>str(e)\<close>.
\<close>

datatype exn = PyError string | HTTPException nat string

datatype channel = Push | Sms | Email | Webhook | InApp

text \<open>The string each branch of \<^verbatim>\<open>send_alert\<close> appends to \<^verbatim>\<open>channels_sent\<close>.\<close>

fun channel_name :: "channel \<Rightarrow> string" where
  "channel_name Push = ''push_notification''"
| "channel_name Sms = ''sms''"
| "channel_name Email = ''email''"
| "channel_name Webhook = ''webhook''"
| "channel_name InApp = ''in_app''"

type_synonym client = nat

text \<open>
  What the program does to the outside, in order: the log lines it writes, the messages
  that a websocket accepted, the locations handed to the predictors and the alert rules,
  and the sleeps of the background loops.
\<close>

datatype event =
    LogSent channel pyval
  | LogSendError channel exn
  | LogAlertCreated pyval pyval
  | LogManualAlert pyval
  | LogInfo string
  | LogError string exn
  | SentJson client pydict
  | Evaluated pydict
  | Sleep nat

text \<open>
  The module-level state: \<^verbatim>\<open>AlertEngine.alerts\<close>, the set \<^verbatim>\<open>connected_clients\<close> of
  app.py (a list without duplicates, in the order the set iterates), the trace of events,
  and the number of reads made so far from sources the program does not control
  (\<^verbatim>\<open>uuid.uuid4\<close>, \<^verbatim>\<open>datetime.utcnow\<close>, the database).
\<close>

record world =
  alerts :: "(string \<times> pydict) list"
  connected_clients :: "client list"
  trace :: "event list"
  ticks :: nat

text \<open>
  The collaborators the modelled code calls and whose code is outside it. Each is a
  parameter of the model:
  \<^item> \<open>uuid4\<close>, \<open>utcnow\<close>: the identifier and the ISO timestamp the n-th read returns;
  \<^item> \<open>adapter_raises\<close>: whether the statements inside a channel helper raise for an alert
    (used for the helpers whose body is not fully in the available source);
  \<^item> \<open>send_json_raises\<close>: whether \<^verbatim>\<open>client.send_json(message)\<close> raises;
  \<^item> \<open>get_latest_sensor_data\<close>: the database read of the prediction loop;
  \<^item> \<open>evaluate_location\<close>: the three predictions and \<^verbatim>\<open>alert_rules.evaluate\<close> for one
    location, giving the triggered alerts or raising;
  \<^item> \<open>collect_data\<close>: the fetches, the simulation and the save of the collection loop,
    giving the combined dictionary or raising.
\<close>

record collaborators =
  uuid4 :: "nat \<Rightarrow> string"
  utcnow :: "nat \<Rightarrow> string"
  adapter_raises :: "channel \<Rightarrow> pydict \<Rightarrow> bool"
  send_json_raises :: "client \<Rightarrow> pydict \<Rightarrow> bool"
  get_latest_sensor_data :: "nat \<Rightarrow> exn + pydict list"
  evaluate_location :: "pydict \<Rightarrow> exn + pydict list"
  collect_data :: "nat \<Rightarrow> exn + pydict"

subsection \<open>Statements that may raise\<close>

text \<open>
  A statement takes the world and gives back either the exception it raised or its value,
  with the world as it left it. \<open>andthen\<close> is sequencing (an exception skips the rest),
  \<open>try_except\<close> is \<^verbatim>\<open>try: ... except Exception as e: ...\<close>.
\<close>

type_synonym 'a prog = "world \<Rightarrow> (exn + 'a) \<times> world"

definition returns :: "'a \<Rightarrow> 'a prog" where
  "returns x w = (Inr x, w)"

definition raises :: "exn \<Rightarrow> 'a prog" where
  "raises e w = (Inl e, w)"

definition andthen :: "'a prog \<Rightarrow> ('a \<Rightarrow> 'b prog) \<Rightarrow> 'b prog" where
  "andthen m f w = (case m w of (Inl e, w') \<Rightarrow> (Inl e, w') | (Inr x, w') \<Rightarrow> f x w')"

definition try_except :: "'a prog \<Rightarrow> (exn \<Rightarrow> 'a prog) \<Rightarrow> 'a prog" where
  "try_except m h w = (case m w of (Inl e, w') \<Rightarrow> h e w' | (Inr x, w') \<Rightarrow> (Inr x, w'))"

definition emit :: "event \<Rightarrow> unit prog" where
  "emit ev w = (Inr (), w\<lparr>trace := trace w @ [ev]\<rparr>)"

definition lift :: "exn + 'a \<Rightarrow> 'a prog" where
  "lift r w = (r, w)"

definition read_uuid4 :: "collaborators \<Rightarrow> string prog" where
  "read_uuid4 env w = (Inr (uuid4 env (ticks w)), w\<lparr>ticks := Suc (ticks w)\<rparr>)"

definition read_utcnow :: "collaborators \<Rightarrow> string prog" where
  "read_utcnow env w = (Inr (utcnow env (ticks w)), w\<lparr>ticks := Suc (ticks w)\<rparr>)"


section \<open>The alert engine\<close>

text \<open>
  alerts/notification_engine.py. The bodies of \<^verbatim>\<open>_send_push_notification\<close> and
  \<^verbatim>\<open>_send_sms\<close> build their text from the alert and log; they raise exactly when
  \<^verbatim>\<open>alert['type'].upper()\<close> or the slice \<^verbatim>\<open>alert['message'][:n]\<close> does, that is when the
  type is not a string or the message is neither a string nor a list.
\<close>

fun has_upper :: "pyval \<Rightarrow> bool" where
  "has_upper (PStr s) = True"
| "has_upper v = False"

fun sliceable :: "pyval \<Rightarrow> bool" where
  "sliceable (PStr s) = True"
| "sliceable (PList xs) = True"
| "sliceable v = False"

definition text_body_raises :: "pydict \<Rightarrow> bool" where
  "text_body_raises alert =
     (\<not> (has_upper (dict_get alert ''type'' PNone) \<and> sliceable (dict_get alert ''message'' PNone)))"

text \<open>
  The shape the channel helpers share: run the body, log the success line with the
  alert's id; on any exception log the error line and return.
\<close>

definition guarded_send :: "channel \<Rightarrow> bool \<Rightarrow> pydict \<Rightarrow> unit prog" where
  "guarded_send ch body_raises alert =
     try_except
       (andthen (if body_raises then raises (PyError ''channel'') else returns ())
          (\<lambda>_. emit (LogSent ch (dict_get alert ''id'' PNone))))
       (\<lambda>e. emit (LogSendError ch e))"

definition send_push_notification :: "collaborators \<Rightarrow> pydict \<Rightarrow> unit prog" where
  "send_push_notification env alert = guarded_send Push (text_body_raises alert) alert"

definition send_sms :: "collaborators \<Rightarrow> pydict \<Rightarrow> unit prog" where
  "send_sms env alert = guarded_send Sms (text_body_raises alert) alert"

text \<open>
  The available notification_engine.py ends inside the body of \<^verbatim>\<open>_send_email\<close>, after
  its \<^verbatim>\<open>try:\<close>, and before \<^verbatim>\<open>_send_webhook\<close> and \<^verbatim>\<open>_send_in_app_notification\<close>.
  The specification (4.3, 7) makes every channel adapter a single operation with a success
  or failure outcome, whose failure is recorded and never propagated past the dispatcher.
  The three helpers get the shape of their two siblings, the outcome of the body being a
  parameter.
\<close>

text \<open>
  Modelled from the spec: \<^verbatim>\<open>_send_email\<close>, cut off after the start of its body. The
  lines that are there call \<^verbatim>\<open>.upper()\<close> on the alert's type and severity, so the body
  raises when either is not a string; what the rest of the body does is the parameter.
\<close>

definition email_body_raises :: "collaborators \<Rightarrow> pydict \<Rightarrow> bool" where
  "email_body_raises env alert =
     (if has_upper (dict_get alert ''type'' PNone) \<and> has_upper (dict_get alert ''severity'' PNone)
      then adapter_raises env Email alert else True)"

text \<open>Modelled from the spec: the \<^verbatim>\<open>try\<close> of \<^verbatim>\<open>_send_email\<close> is there, its handler is not.\<close>

definition send_email :: "collaborators \<Rightarrow> pydict \<Rightarrow> unit prog" where
  "send_email env alert = guarded_send Email (email_body_raises env alert) alert"

text \<open>Modelled from the spec: \<^verbatim>\<open>_send_webhook\<close>, beyond the end of the available file.\<close>

definition send_webhook :: "collaborators \<Rightarrow> pydict \<Rightarrow> unit prog" where
  "send_webhook env alert = guarded_send Webhook (adapter_raises env Webhook alert) alert"

text \<open>Modelled from the spec: \<^verbatim>\<open>_send_in_app_notification\<close>, beyond the end of the available file.\<close>

definition send_in_app_notification :: "collaborators \<Rightarrow> pydict \<Rightarrow> unit prog" where
  "send_in_app_notification env alert = guarded_send InApp (adapter_raises env InApp alert) alert"

text \<open>
  \<^verbatim>\<open>alert["channels_sent"].append(name)\<close>. The entry is the list that \<open>new_alert\<close> puts
  there, so the other case of the value does not arise.
\<close>

definition append_channel :: "pydict \<Rightarrow> string \<Rightarrow> pydict" where
  "append_channel alert name =
     dict_set alert ''channels_sent''
       (case dict_get alert ''channels_sent'' PNone of
          PList xs \<Rightarrow> PList (xs @ [PStr name])
        | v \<Rightarrow> v)"

text \<open>The alert object \<^verbatim>\<open>send_alert\<close> creates from its argument.\<close>

definition new_alert :: "string \<Rightarrow> string \<Rightarrow> pydict \<Rightarrow> pydict" where
  "new_alert aid now alert_data =
     [(''id'', PStr aid),
      (''type'', dict_get alert_data ''type'' (PStr ''unknown'')),
      (''severity'', dict_get alert_data ''severity'' (PStr ''moderate'')),
      (''location'', dict_get alert_data ''location'' (PStr ''Unknown'')),
      (''latitude'', dict_get alert_data ''latitude'' (PInt 0)),
      (''longitude'', dict_get alert_data ''longitude'' (PInt 0)),
      (''message'', dict_get alert_data ''message'' (PStr [])),
      (''human_readable'', dict_get alert_data ''human_readable'' (PStr [])),
      (''affected_population'', dict_get alert_data ''affected_population'' (PInt 0)),
      (''recommendations'', dict_get alert_data ''recommendations'' (PList [])),
      (''created_at'', PStr now),
      (''status'', PStr ''active''),
      (''channels_sent'', PList [])]"

definition store_alert :: "string \<Rightarrow> pydict \<Rightarrow> unit prog" where
  "store_alert aid alert w = (Inr (), w\<lparr>alerts := dict_set (alerts w) aid alert\<rparr>)"

text \<open>
  \<^verbatim>\<open>AlertEngine.send_alert\<close>: create the alert, call the helpers of the branch its severity
  selects, appending the channel's name after each call, store the alert, log and return
  it; an exception inside is logged and raised again.
\<close>

definition dispatch_channels :: "collaborators \<Rightarrow> pydict \<Rightarrow> pydict prog" where
  "dispatch_channels env alert =
     (if dict_get alert ''severity'' PNone = PStr ''critical''
         \<or> dict_get alert ''severity'' PNone = PStr ''high''
      then
        andthen (send_push_notification env alert) (\<lambda>_.
        let alert1 = append_channel alert ''push_notification'' in
        andthen (send_sms env alert1) (\<lambda>_.
        let alert2 = append_channel alert1 ''sms'' in
        andthen (send_email env alert2) (\<lambda>_.
        let alert3 = append_channel alert2 ''email'' in
        andthen (send_webhook env alert3) (\<lambda>_.
        returns (append_channel alert3 ''webhook'')))))
      else if dict_get alert ''severity'' PNone = PStr ''moderate''
      then
        andthen (send_push_notification env alert) (\<lambda>_.
        let alert1 = append_channel alert ''push_notification'' in
        andthen (send_email env alert1) (\<lambda>_.
        returns (append_channel alert1 ''email'')))
      else
        andthen (send_in_app_notification env alert) (\<lambda>_.
        returns (append_channel alert ''in_app'')))"

definition send_alert :: "collaborators \<Rightarrow> pydict \<Rightarrow> pydict prog" where
  "send_alert env alert_data =
     try_except
       (andthen (read_uuid4 env) (\<lambda>aid.
        andthen (read_utcnow env) (\<lambda>now.
        andthen (dispatch_channels env (new_alert aid now alert_data)) (\<lambda>alert.
        andthen (store_alert aid alert) (\<lambda>_.
        andthen (emit (LogAlertCreated (dict_get alert ''type'' PNone)
                                       (dict_get alert ''severity'' PNone))) (\<lambda>_.
        returns alert))))))
       (\<lambda>e. andthen (emit (LogError ''sending alert'' e)) (\<lambda>_. raises e))"

text \<open>Reading a trace: which channel helpers ran, and which of them logged a failure.\<close>

fun channels_attempted :: "event list \<Rightarrow> channel list" where
  "channels_attempted [] = []"
| "channels_attempted (LogSent ch i # evs) = ch # channels_attempted evs"
| "channels_attempted (LogSendError ch e # evs) = ch # channels_attempted evs"
| "channels_attempted (ev # evs) = channels_attempted evs"

fun channels_failed :: "event list \<Rightarrow> channel list" where
  "channels_failed [] = []"
| "channels_failed (LogSendError ch e # evs) = ch # channels_failed evs"
| "channels_failed (ev # evs) = channels_failed evs"

text \<open>The channel names recorded in an alert's \<^verbatim>\<open>channels_sent\<close>.\<close>

definition channels_sent :: "pydict \<Rightarrow> pyval" where
  "channels_sent alert = dict_get alert ''channels_sent'' PNone"

text \<open>The events a statement added to the trace.\<close>

definition new_events :: "world \<Rightarrow> world \<Rightarrow> event list" where
  "new_events w w' = drop (length (trace w)) (trace w')"

text \<open>
  The channel-selection table of the specification (4.3), keyed by the severity value,
  with every value that is none of the three named strings in the last row. This
  definition follows the specification; \<open>dispatch_channels\<close> is compared with it.
\<close>

definition select_channels :: "pyval \<Rightarrow> channel list" where
  "select_channels sev =
     (if sev = PStr ''critical'' \<or> sev = PStr ''high'' then [Push, Sms, Email, Webhook]
      else if sev = PStr ''moderate'' then [Push, Email]
      else [InApp])"

text \<open>Whether the body of a channel's helper raises for an alert.\<close>

fun body_raises :: "collaborators \<Rightarrow> channel \<Rightarrow> pydict \<Rightarrow> bool" where
  "body_raises env Push alert = text_body_raises alert"
| "body_raises env Sms alert = text_body_raises alert"
| "body_raises env Email alert = email_body_raises env alert"
| "body_raises env Webhook alert = adapter_raises env Webhook alert"
| "body_raises env InApp alert = adapter_raises env InApp alert"

text \<open>The log line one helper call leaves, and the lines a sequence of calls leaves.\<close>

definition channel_event :: "collaborators \<Rightarrow> channel \<Rightarrow> pydict \<Rightarrow> event" where
  "channel_event env ch alert =
     (if body_raises env ch alert then LogSendError ch (PyError ''channel'')
      else LogSent ch (dict_get alert ''id'' PNone))"

fun channel_events :: "collaborators \<Rightarrow> pydict \<Rightarrow> channel list \<Rightarrow> event list" where
  "channel_events env alert [] = []"
| "channel_events env alert (ch # chs) =
     channel_event env ch alert # channel_events env (append_channel alert (channel_name ch)) chs"

fun with_channels :: "pydict \<Rightarrow> channel list \<Rightarrow> pydict" where
  "with_channels alert [] = alert"
| "with_channels alert (ch # chs) = with_channels (append_channel alert (channel_name ch)) chs"

section \<open>The broadcast fan-out\<close>

text \<open>
  app.py, \<^verbatim>\<open>broadcast_update\<close>: when the client set is not empty, try \<^verbatim>\<open>send_json\<close> on
  each client, collecting those whose send raised in the set \<^verbatim>\<open>disconnected\<close>, then
  discard every collected client from \<^verbatim>\<open>connected_clients\<close>.
\<close>

definition send_json :: "collaborators \<Rightarrow> client \<Rightarrow> pydict \<Rightarrow> unit prog" where
  "send_json env client message =
     (if send_json_raises env client message then raises (PyError ''send_json'')
      else emit (SentJson client message))"

fun sweep :: "collaborators \<Rightarrow> pydict \<Rightarrow> client list \<Rightarrow> client list \<Rightarrow> client list prog" where
  "sweep env message [] disconnected = returns disconnected"
| "sweep env message (client # rest) disconnected =
     andthen
       (try_except
          (andthen (send_json env client message) (\<lambda>_. returns disconnected))
          (\<lambda>e. returns (List.insert client disconnected)))
       (\<lambda>disconnected'. sweep env message rest disconnected')"

definition discard :: "client \<Rightarrow> unit prog" where
  "discard client w = (Inr (), w\<lparr>connected_clients := removeAll client (connected_clients w)\<rparr>)"

fun discard_all :: "client list \<Rightarrow> unit prog" where
  "discard_all [] = returns ()"
| "discard_all (client # rest) = andthen (discard client) (\<lambda>_. discard_all rest)"

definition broadcast_update :: "collaborators \<Rightarrow> pydict \<Rightarrow> unit prog" where
  "broadcast_update env message w =
     (if connected_clients w \<noteq> []
      then andthen (sweep env message (connected_clients w) []) discard_all w
      else returns () w)"

definition alert_message :: "pydict \<Rightarrow> string \<Rightarrow> pydict" where
  "alert_message alert now =
     [(''type'', PStr ''alert''), (''data'', PDict alert), (''timestamp'', PStr now)]"

definition broadcast_alert :: "collaborators \<Rightarrow> pydict \<Rightarrow> unit prog" where
  "broadcast_alert env alert =
     andthen (read_utcnow env) (\<lambda>now. broadcast_update env (alert_message alert now))"

text \<open>The messages a trace shows as sent, with their receivers.\<close>

fun sent_messages :: "event list \<Rightarrow> (client \<times> pydict) list" where
  "sent_messages [] = []"
| "sent_messages (SentJson c m # evs) = (c, m) # sent_messages evs"
| "sent_messages (ev # evs) = sent_messages evs"

section \<open>The background loops\<close>

text \<open>
  app.py, \<^verbatim>\<open>background_data_collection\<close>. One pass of the \<^verbatim>\<open>while True\<close> body: collect,
  broadcast the update, sleep 60 seconds; on any exception log it and sleep 60 seconds.
\<close>

definition read_collect_data :: "collaborators \<Rightarrow> pydict prog" where
  "read_collect_data env w = (collect_data env (ticks w), w\<lparr>ticks := Suc (ticks w)\<rparr>)"

definition update_message :: "pydict \<Rightarrow> string \<Rightarrow> pydict" where
  "update_message all_data now =
     [(''type'', PStr ''sensor_update''), (''data'', PDict all_data), (''timestamp'', PStr now)]"

definition collection_cycle :: "collaborators \<Rightarrow> unit prog" where
  "collection_cycle env =
     try_except
       (andthen (emit (LogInfo ''Collecting external environmental data'')) (\<lambda>_.
        andthen (read_collect_data env) (\<lambda>all_data.
        andthen (read_utcnow env) (\<lambda>now.
        andthen (broadcast_update env (update_message all_data now)) (\<lambda>_.
        emit (Sleep 60))))))
       (\<lambda>e. andthen (emit (LogError ''background data collection'' e)) (\<lambda>_. emit (Sleep 60)))"

text \<open>
  app.py, \<^verbatim>\<open>background_prediction_loop\<close>. For each location of the latest sensor data
  the predictors and the rules run, and every triggered alert goes to \<^verbatim>\<open>send_alert\<close> and
  to \<^verbatim>\<open>broadcast_alert\<close>; then the loop sleeps 300 seconds. One \<^verbatim>\<open>try\<close> encloses the
  whole pass; its handler logs and sleeps 300 seconds.
\<close>

fun send_alerts :: "collaborators \<Rightarrow> pydict list \<Rightarrow> unit prog" where
  "send_alerts env [] = returns ()"
| "send_alerts env (alert # rest) =
     andthen (send_alert env alert) (\<lambda>_.
     andthen (broadcast_alert env alert) (\<lambda>_.
     send_alerts env rest))"

definition process_location :: "collaborators \<Rightarrow> pydict \<Rightarrow> unit prog" where
  "process_location env location_data =
     andthen (emit (Evaluated location_data)) (\<lambda>_.
     andthen (lift (evaluate_location env location_data)) (\<lambda>alerts_triggered.
     send_alerts env alerts_triggered))"

fun for_locations :: "collaborators \<Rightarrow> pydict list \<Rightarrow> unit prog" where
  "for_locations env [] = returns ()"
| "for_locations env (location_data # rest) =
     andthen (process_location env location_data) (\<lambda>_. for_locations env rest)"

definition read_sensor_data :: "collaborators \<Rightarrow> pydict list prog" where
  "read_sensor_data env w = (get_latest_sensor_data env (ticks w), w\<lparr>ticks := Suc (ticks w)\<rparr>)"

definition prediction_cycle :: "collaborators \<Rightarrow> unit prog" where
  "prediction_cycle env =
     try_except
       (andthen (emit (LogInfo ''Running AI predictions'')) (\<lambda>_.
        andthen (read_sensor_data env) (\<lambda>sensor_data.
        andthen (if sensor_data \<noteq> [] then for_locations env sensor_data else returns ()) (\<lambda>_.
        emit (Sleep 300)))))
       (\<lambda>e. andthen (emit (LogError ''prediction loop'' e)) (\<lambda>_. emit (Sleep 300)))"

text \<open>
  The \<^verbatim>\<open>while True\<close> loop, run for a number of passes. The only way out of the loop is an
  exception leaving a pass: \<open>Some e\<close> is that exception, \<open>None\<close> says that the loop is
  still running after the given number of passes.
\<close>

fun background_prediction_loop :: "collaborators \<Rightarrow> nat \<Rightarrow> world \<Rightarrow> exn option \<times> world" where
  "background_prediction_loop env 0 w = (None, w)"
| "background_prediction_loop env (Suc n) w =
     (case prediction_cycle env w of
        (Inl e, w') \<Rightarrow> (Some e, w')
      | (Inr u, w') \<Rightarrow> background_prediction_loop env n w')"

text \<open>Reading a trace: the locations evaluated, and the sleeps, in order.\<close>

fun evaluated :: "event list \<Rightarrow> pydict list" where
  "evaluated [] = []"
| "evaluated (Evaluated l # evs) = l # evaluated evs"
| "evaluated (ev # evs) = evaluated evs"

fun sleeps :: "event list \<Rightarrow> nat list" where
  "sleeps [] = []"
| "sleeps (Sleep n # evs) = n # sleeps evs"
| "sleeps (ev # evs) = sleeps evs"

text \<open>
  Reading a trace: the type and severity of every alert the engine logged as created, in
  order; and the type and severity \<open>send_alert\<close> gives the alert made from an input.
\<close>

fun alerts_created :: "event list \<Rightarrow> (pyval \<times> pyval) list" where
  "alerts_created [] = []"
| "alerts_created (LogAlertCreated t s # evs) = (t, s) # alerts_created evs"
| "alerts_created (ev # evs) = alerts_created evs"

definition alert_kind :: "pydict \<Rightarrow> pyval \<times> pyval" where
  "alert_kind alert_data =
     (dict_get alert_data ''type'' (PStr ''unknown''),
      dict_get alert_data ''severity'' (PStr ''moderate''))"

text \<open>
  What the body of the loop over the triggered alerts does to the world for one alert
  (\<^verbatim>\<open>await alert_engine.send_alert(alert)\<close>, then \<^verbatim>\<open>await broadcast_alert(alert)\<close>), the
  alerts the rules trigger for a location, and what the body of the loop over the
  locations does to the world for one location whose evaluation returns. These are
  written with \<open>send_alert\<close> and \<open>broadcast_alert\<close> themselves; the loops are compared with
  them.
\<close>

definition deliver :: "collaborators \<Rightarrow> pydict \<Rightarrow> world \<Rightarrow> world" where
  "deliver env alert w = snd (broadcast_alert env alert (snd (send_alert env alert w)))"

definition triggered :: "collaborators \<Rightarrow> pydict \<Rightarrow> pydict list" where
  "triggered env location_data =
     (case evaluate_location env location_data of Inr alerts_triggered \<Rightarrow> alerts_triggered
      | Inl e \<Rightarrow> [])"

definition processed :: "collaborators \<Rightarrow> pydict \<Rightarrow> world \<Rightarrow> world" where
  "processed env location_data w =
     foldl (\<lambda>w' alert. deliver env alert w')
       (w\<lparr>trace := trace w @ [Evaluated location_data]\<rparr>) (triggered env location_data)"

section \<open>The manual alert endpoint\<close>




section \<open>Sample collaborators and inputs\<close>

text \<open>
  Collaborators none of which fails: identifiers \<open>a\<close>, \<open>aa\<close>, ... in the order they are
  drawn, a fixed timestamp, no data. The others below differ from it in one field.
\<close>

definition quiet_env :: collaborators where
  "quiet_env =
     \<lparr>uuid4 = (\<lambda>n. replicate (Suc n) CHR ''a''),
      utcnow = (\<lambda>n. ''2024-05-01T10:00:00''),
      adapter_raises = (\<lambda>ch alert. False),
      send_json_raises = (\<lambda>c m. False),
      get_latest_sensor_data = (\<lambda>n. Inr []),
      evaluate_location = (\<lambda>l. Inr []),
      collect_data = (\<lambda>n. Inr [])\<rparr>"

definition webhook_down_env :: collaborators where
  "webhook_down_env = quiet_env\<lparr>adapter_raises := (\<lambda>ch alert. ch = Webhook)\<rparr>"

definition empty_world :: world where
  "empty_world = \<lparr>alerts = [], connected_clients = [], trace = [], ticks = 0\<rparr>"

definition flood_alert :: "string \<Rightarrow> pyval \<Rightarrow> pydict" where
  "flood_alert sev msg =
     [(''type'', PStr ''flood''), (''severity'', PStr sev), (''location'', PStr ''Riverside''),
      (''message'', msg)]"

text \<open>Client 2 is down; worlds with three clients and with one; a data update.\<close>

definition client_two_down_env :: collaborators where
  "client_two_down_env = quiet_env\<lparr>send_json_raises := (\<lambda>c m. c = 2)\<rparr>"

definition three_clients_world :: world where
  "three_clients_world = empty_world\<lparr>connected_clients := [1, 2, 3]\<rparr>"

definition one_client_world :: world where
  "one_client_world = empty_world\<lparr>connected_clients := [7]\<rparr>"

definition sample_update :: pydict where
  "sample_update = update_message [(''pm25'', PInt 30)] ''2024-05-01T10:00:00''"

text \<open>Two locations; the predictions for the first raise, the second triggers an alert.\<close>

definition riverside :: pydict where
  "riverside = [(''location'', PStr ''Riverside''), (''water_level'', PInt 4)]"

definition hilltop :: pydict where
  "hilltop = [(''location'', PStr ''Hilltop''), (''water_level'', PInt 1)]"

definition riverside_raises_env :: collaborators where
  "riverside_raises_env =
     quiet_env\<lparr>get_latest_sensor_data := (\<lambda>n. Inr [riverside, hilltop]),
               evaluate_location := (\<lambda>l. if l = riverside then Inl (PyError ''KeyError'')
                                          else Inr [flood_alert ''high'' (PStr ''rising'')])\<rparr>"

text \<open>The same with Hilltop first, then Riverside, then Hilltop again.\<close>

definition hilltop_first_env :: collaborators where
  "hilltop_first_env =
     riverside_raises_env\<lparr>get_latest_sensor_data := (\<lambda>n. Inr [hilltop, riverside, hilltop])\<rparr>"

section \<open>Theorems\<close>

subsection \<open>PM2.5 AQI\<close>

lemma aqi_scan_no_row:
  "\<not> in_some_breakpoint bps x \<Longrightarrow> aqi_scan bps x = 500"
  by (induction bps x rule: aqi_scan.induct) (auto simp: in_some_breakpoint_def)

lemma pm25_gap_no_row:
  "12 < x \<Longrightarrow> x < 12.1 \<Longrightarrow> \<not> in_some_breakpoint pm25_breakpoints x"
  by (simp add: in_some_breakpoint_def pm25_breakpoints_def)

lemma pm25_negative_no_row:
  "x < 0 \<Longrightarrow> \<not> in_some_breakpoint pm25_breakpoints x"
  by (simp add: in_some_breakpoint_def pm25_breakpoints_def)

lemma pm25_at_12_05: "calculate_pm25_aqi (241 / 20) = 500"
  by (simp add: calculate_pm25_aqi_def pm25_breakpoints_def)

lemma pm25_at_12_1: "calculate_pm25_aqi (121 / 10) = 51"
  by (simp add: calculate_pm25_aqi_def pm25_breakpoints_def)

text \<open>
  Claim C10. The PM2.5 AQI helper returns 500.0 for every input that lies in no row of
  the breakpoint table; this covers every value strictly between 12 and 12.1 and every
  negative value; and the function is not monotone in its input.
\<close>

theorem pm25_aqi_gaps_return_500:
  "(\<forall>x. \<not> in_some_breakpoint pm25_breakpoints x \<longrightarrow> calculate_pm25_aqi x = 500)
   \<and> (\<forall>x. 12 < x \<and> x < 12.1 \<longrightarrow> calculate_pm25_aqi x = 500)
   \<and> (\<forall>x. x < 0 \<longrightarrow> calculate_pm25_aqi x = 500)
   \<and> \<not> mono calculate_pm25_aqi"
proof (intro conjI allI impI)
  fix x :: real
  assume "\<not> in_some_breakpoint pm25_breakpoints x"
  then show "calculate_pm25_aqi x = 500"
    by (simp add: calculate_pm25_aqi_def aqi_scan_no_row)
next
  fix x :: real
  assume "12 < x \<and> x < 12.1"
  then have "\<not> in_some_breakpoint pm25_breakpoints x"
    by (simp add: pm25_gap_no_row)
  then show "calculate_pm25_aqi x = 500"
    by (simp add: calculate_pm25_aqi_def aqi_scan_no_row)
next
  fix x :: real
  assume "x < 0"
  then have "\<not> in_some_breakpoint pm25_breakpoints x"
    by (rule pm25_negative_no_row)
  then show "calculate_pm25_aqi x = 500"
    by (simp add: calculate_pm25_aqi_def aqi_scan_no_row)
next
  show "\<not> mono calculate_pm25_aqi"
  proof
    assume m: "mono calculate_pm25_aqi"
    have "calculate_pm25_aqi (241 / 20) \<le> calculate_pm25_aqi (121 / 10)"
      by (rule monoD [OF m]) simp
    then show False
      by (simp add: pm25_at_12_05 pm25_at_12_1)
  qed
qed

theorem pm25_aqi_gaps_return_500_witness:
  "\<not> in_some_breakpoint pm25_breakpoints (241 / 20) \<and> calculate_pm25_aqi (241 / 20) = 500
   \<and> calculate_pm25_aqi (- 1) = 500"
proof -
  have a: "\<not> in_some_breakpoint pm25_breakpoints (241 / 20)"
    by (simp add: in_some_breakpoint_def pm25_breakpoints_def)
  have b: "(- 1 :: real) < 0" by simp
  from pm25_aqi_gaps_return_500 a b show ?thesis by blast
qed

subsection \<open>The alert engine\<close>

lemma guarded_send_eq:
  "guarded_send ch b alert w =
     (Inr (), w\<lparr>trace := trace w @
        [if b then LogSendError ch (PyError ''channel'') else LogSent ch (dict_get alert ''id'' PNone)]\<rparr>)"
  by (simp add: guarded_send_def try_except_def andthen_def raises_def returns_def emit_def)

lemma send_push_notification_eq:
  "send_push_notification env alert w = (Inr (), w\<lparr>trace := trace w @ [channel_event env Push alert]\<rparr>)"
  by (simp add: send_push_notification_def guarded_send_eq channel_event_def)

lemma send_sms_eq:
  "send_sms env alert w = (Inr (), w\<lparr>trace := trace w @ [channel_event env Sms alert]\<rparr>)"
  by (simp add: send_sms_def guarded_send_eq channel_event_def)

lemma send_email_eq:
  "send_email env alert w = (Inr (), w\<lparr>trace := trace w @ [channel_event env Email alert]\<rparr>)"
  by (simp add: send_email_def guarded_send_eq channel_event_def)

lemma send_webhook_eq:
  "send_webhook env alert w = (Inr (), w\<lparr>trace := trace w @ [channel_event env Webhook alert]\<rparr>)"
  by (simp add: send_webhook_def guarded_send_eq channel_event_def)

lemma send_in_app_notification_eq:
  "send_in_app_notification env alert w = (Inr (), w\<lparr>trace := trace w @ [channel_event env InApp alert]\<rparr>)"
  by (simp add: send_in_app_notification_def guarded_send_eq channel_event_def)

lemmas send_helper_eqs = send_push_notification_eq send_sms_eq send_email_eq send_webhook_eq
  send_in_app_notification_eq

lemma dispatch_channels_eq:
  "dispatch_channels env alert w =
     (Inr (with_channels alert (select_channels (dict_get alert ''severity'' PNone))),
      w\<lparr>trace := trace w @ channel_events env alert (select_channels (dict_get alert ''severity'' PNone))\<rparr>)"
  by (simp add: dispatch_channels_def andthen_def returns_def send_helper_eqs Let_def select_channels_def)

lemma new_alert_severity:
  "dict_get (new_alert aid now alert_data) ''severity'' dflt = dict_get alert_data ''severity'' (PStr ''moderate'')"
  by (simp add: new_alert_def dict_get_def)

lemma send_alert_eq:
  "send_alert env alert_data w =
     (let aid = uuid4 env (ticks w);
          now = utcnow env (Suc (ticks w));
          alert0 = new_alert aid now alert_data;
          chs = select_channels (dict_get alert_data ''severity'' (PStr ''moderate''));
          alert = with_channels alert0 chs
      in (Inr alert,
          w\<lparr>ticks := Suc (Suc (ticks w)),
            trace := trace w @ channel_events env alert0 chs
                     @ [LogAlertCreated (dict_get alert ''type'' PNone) (dict_get alert ''severity'' PNone)],
            alerts := dict_set (alerts w) aid alert\<rparr>))"
  by (simp add: send_alert_def try_except_def andthen_def read_uuid4_def read_utcnow_def
      dispatch_channels_eq store_alert_def emit_def returns_def new_alert_severity Let_def)

lemma channels_attempted_events [simp]:
  "channels_attempted (channel_events env alert chs) = chs"
  by (induction chs arbitrary: alert) (auto simp: channel_event_def)

lemma channels_attempted_append [simp]:
  "channels_attempted (xs @ ys) = channels_attempted xs @ channels_attempted ys"
  by (induction xs rule: channels_attempted.induct) auto

lemma channels_failed_append [simp]:
  "channels_failed (xs @ ys) = channels_failed xs @ channels_failed ys"
  by (induction xs rule: channels_failed.induct) auto

lemma channels_failed_events_subset:
  "set (channels_failed (channel_events env alert chs)) \<subseteq> set chs"
  by (induction chs arbitrary: alert) (auto simp: channel_event_def)

lemma channels_failed_events_logged:
  "ch \<in> set (channels_failed (channel_events env alert chs)) \<Longrightarrow>
   LogSendError ch (PyError ''channel'') \<in> set (channel_events env alert chs)"
  by (induction chs arbitrary: alert) (auto simp: channel_event_def split: if_splits)

lemma map_of_dict_set: "map_of (dict_set d k v) = (map_of d)(k \<mapsto> v)"
  by (induction d k v rule: dict_set.induct) auto

lemma dict_get_append_channel_other:
  "k \<noteq> ''channels_sent'' \<Longrightarrow> dict_get (append_channel alert name) k dflt = dict_get alert k dflt"
  by (simp add: append_channel_def dict_get_def map_of_dict_set)

lemma channels_sent_append_channel:
  "channels_sent alert = PList xs \<Longrightarrow> channels_sent (append_channel alert name) = PList (xs @ [PStr name])"
  by (simp add: channels_sent_def append_channel_def dict_get_def map_of_dict_set)

lemma channels_sent_with_channels:
  "channels_sent alert = PList xs \<Longrightarrow>
   channels_sent (with_channels alert chs) = PList (xs @ map (\<lambda>ch. PStr (channel_name ch)) chs)"
  by (induction chs arbitrary: alert xs) (auto simp: channels_sent_append_channel)

lemma dict_get_with_channels_other:
  "k \<noteq> ''channels_sent'' \<Longrightarrow> dict_get (with_channels alert chs) k dflt = dict_get alert k dflt"
  by (induction chs arbitrary: alert) (auto simp: dict_get_append_channel_other)

lemma channels_sent_new_alert: "channels_sent (new_alert aid now alert_data) = PList []"
  by (simp add: channels_sent_def new_alert_def dict_get_def)

lemma status_new_alert: "dict_get (new_alert aid now alert_data) ''status'' dflt = PStr ''active''"
  by (simp add: new_alert_def dict_get_def)

lemma new_events_append:
  "trace w' = trace w @ evs \<Longrightarrow> new_events w w' = evs"
  by (simp add: new_events_def)

text \<open>What every call of \<open>send_alert\<close> gives, in one statement.\<close>

lemma send_alert_outcome:
  assumes "send_alert env alert_data w = (r, w')"
  defines "chs \<equiv> select_channels (dict_get alert_data ''severity'' (PStr ''moderate''))"
  shows "\<exists>alert. r = Inr alert
    \<and> channels_sent alert = PList (map (\<lambda>ch. PStr (channel_name ch)) chs)
    \<and> dict_get alert ''status'' PNone = PStr ''active''
    \<and> map_of (alerts w') (uuid4 env (ticks w)) = Some alert
    \<and> channels_attempted (new_events w w') = chs
    \<and> set (channels_failed (new_events w w')) \<subseteq> set chs
    \<and> (\<forall>ch \<in> set (channels_failed (new_events w w')).
          LogSendError ch (PyError ''channel'') \<in> set (new_events w w'))"
proof -
  let ?init = "new_alert (uuid4 env (ticks w)) (utcnow env (Suc (ticks w))) alert_data"
  let ?final = "with_channels ?init chs"
  let ?evs = "channel_events env ?init chs @
      [LogAlertCreated (dict_get ?final ''type'' PNone) (dict_get ?final ''severity'' PNone)]"
  from assms(1) have r: "r = Inr ?final"
    and w': "w' = w\<lparr>ticks := Suc (Suc (ticks w)), trace := trace w @ ?evs,
                     alerts := dict_set (alerts w) (uuid4 env (ticks w)) ?final\<rparr>"
    by (simp_all add: send_alert_eq Let_def chs_def)
  from w' have ne: "new_events w w' = ?evs"
    by (simp add: new_events_append)
  have 1: "channels_sent ?final = PList (map (\<lambda>ch. PStr (channel_name ch)) chs)"
    using channels_sent_with_channels [OF channels_sent_new_alert] by simp
  have 2: "dict_get ?final ''status'' PNone = PStr ''active''"
    by (simp add: dict_get_with_channels_other status_new_alert)
  have 3: "map_of (alerts w') (uuid4 env (ticks w)) = Some ?final"
    by (simp add: w' map_of_dict_set)
  have 4: "channels_attempted (new_events w w') = chs"
    by (simp add: ne)
  have 5: "set (channels_failed (new_events w w')) \<subseteq> set chs"
    using channels_failed_events_subset [of env ?init chs] by (simp add: ne)
  have 6: "\<forall>ch \<in> set (channels_failed (new_events w w')).
          LogSendError ch (PyError ''channel'') \<in> set (new_events w w')"
    using channels_failed_events_logged [of _ env ?init chs] by (auto simp: ne)
  from r 1 2 3 4 5 6 show ?thesis by blast
qed

text \<open>
  Claim C1, as amended. For every alert input, in every world and whatever the channel
  helpers do, \<open>send_alert\<close> returns the created alert and does not raise; the alert is
  stored under its id, and its \<open>channels_sent\<close> lists every channel whose helper was
  called for the alert's severity, whether that helper failed or not. A failure inside a
  helper leaves a line in the log only.
\<close>

theorem send_alert_always_returns:
  "\<exists>alert w'. send_alert env alert_data w = (Inr alert, w')
     \<and> channels_attempted (new_events w w')
         = select_channels (dict_get alert_data ''severity'' (PStr ''moderate''))
     \<and> channels_sent alert
         = PList (map (\<lambda>ch. PStr (channel_name ch)) (channels_attempted (new_events w w')))
     \<and> map_of (alerts w') (uuid4 env (ticks w)) = Some alert"
proof -
  obtain r w' where run: "send_alert env alert_data w = (r, w')"
    by (cases "send_alert env alert_data w")
  from send_alert_outcome [OF run] run show ?thesis
    by auto
qed

lemma high_channels:
  "select_channels (dict_get (flood_alert ''high'' msg) ''severity'' (PStr ''moderate''))
      = [Push, Sms, Email, Webhook]"
  by (simp add: select_channels_def flood_alert_def dict_get_def)

lemma first_id: "uuid4 quiet_env (ticks empty_world) = ''a''"
  by (simp add: quiet_env_def empty_world_def)

text \<open>The statement at a high-severity alert whose message is the number 5.\<close>

theorem send_alert_always_returns_witness:
  "\<exists>alert w'. send_alert quiet_env (flood_alert ''high'' (PInt 5)) empty_world = (Inr alert, w')
     \<and> channels_attempted (new_events empty_world w') = [Push, Sms, Email, Webhook]
     \<and> channels_sent alert
         = PList [PStr ''push_notification'', PStr ''sms'', PStr ''email'', PStr ''webhook'']
     \<and> map_of (alerts w') ''a'' = Some alert"
  using send_alert_always_returns [of quiet_env "flood_alert ''high'' (PInt 5)" empty_world]
  by (auto simp: high_channels first_id)

text \<open>
  Claim C1 as stated fails: the returned alert does not encode a channel failure. For a
  high-severity alert whose message is a number the push and SMS helpers fail, and the
  returned alert still lists all four channels; and with a webhook that fails the returned
  alert is the very one returned when nothing fails.
\<close>

theorem send_alert_hides_failure:
  "fst (send_alert quiet_env (flood_alert ''high'' (PInt 5)) empty_world) =
     Inr [(''id'', PStr ''a''), (''type'', PStr ''flood''), (''severity'', PStr ''high''),
          (''location'', PStr ''Riverside''), (''latitude'', PInt 0), (''longitude'', PInt 0),
          (''message'', PInt 5), (''human_readable'', PStr []), (''affected_population'', PInt 0),
          (''recommendations'', PList []), (''created_at'', PStr ''2024-05-01T10:00:00''),
          (''status'', PStr ''active''),
          (''channels_sent'',
             PList [PStr ''push_notification'', PStr ''sms'', PStr ''email'', PStr ''webhook''])]
   \<and> channels_failed (trace (snd (send_alert quiet_env (flood_alert ''high'' (PInt 5)) empty_world)))
       = [Push, Sms]
   \<and> fst (send_alert webhook_down_env (flood_alert ''high'' (PStr ''rising'')) empty_world)
       = fst (send_alert quiet_env (flood_alert ''high'' (PStr ''rising'')) empty_world)
   \<and> channels_failed (trace (snd (send_alert webhook_down_env (flood_alert ''high'' (PStr ''rising'')) empty_world)))
       = [Webhook]
   \<and> channels_failed (trace (snd (send_alert quiet_env (flood_alert ''high'' (PStr ''rising'')) empty_world)))
       = []"
  by code_simp


text \<open>
  Claim C2. The channels attempted by one call of \<open>send_alert\<close> are determined by the
  severity: critical or high gives exactly push, SMS, email and webhook; moderate gives
  exactly push and email; low gives exactly in-app. Each is attempted once, in this order.
\<close>

theorem send_alert_channels_by_severity:
  assumes "send_alert env alert_data w = (r, w')"
    and "sev = dict_get alert_data ''severity'' (PStr ''moderate'')"
  shows "(sev = PStr ''critical'' \<or> sev = PStr ''high'' \<longrightarrow>
            set (channels_attempted (new_events w w')) = {Push, Sms, Email, Webhook}
            \<and> channels_attempted (new_events w w') = [Push, Sms, Email, Webhook])
       \<and> (sev = PStr ''moderate'' \<longrightarrow>
            set (channels_attempted (new_events w w')) = {Push, Email}
            \<and> channels_attempted (new_events w w') = [Push, Email])
       \<and> (sev = PStr ''low'' \<longrightarrow>
            set (channels_attempted (new_events w w')) = {InApp}
            \<and> channels_attempted (new_events w w') = [InApp])"
proof -
  from send_alert_outcome [OF assms(1)]
  have "channels_attempted (new_events w w') = select_channels sev"
    by (auto simp: assms(2))
  then show ?thesis
    by (auto simp: select_channels_def)
qed

text \<open>The statement at a critical, a moderate and a low flood alert.\<close>

theorem send_alert_channels_by_severity_witness:
  "set (channels_attempted (new_events empty_world
          (snd (send_alert quiet_env (flood_alert ''critical'' (PStr ''rising'')) empty_world))))
     = {Push, Sms, Email, Webhook}
   \<and> set (channels_attempted (new_events empty_world
          (snd (send_alert quiet_env (flood_alert ''moderate'' (PStr ''rising'')) empty_world))))
     = {Push, Email}
   \<and> set (channels_attempted (new_events empty_world
          (snd (send_alert quiet_env (flood_alert ''low'' (PStr ''rising'')) empty_world))))
     = {InApp}"
proof -
  have sev: "\<And>s. dict_get (flood_alert s (PStr ''rising'')) ''severity'' (PStr ''moderate'') = PStr s"
    by (simp add: flood_alert_def dict_get_def)
  have run: "\<And>s. send_alert quiet_env (flood_alert s (PStr ''rising'')) empty_world
      = (fst (send_alert quiet_env (flood_alert s (PStr ''rising'')) empty_world),
         snd (send_alert quiet_env (flood_alert s (PStr ''rising'')) empty_world))"
    by simp
  from send_alert_channels_by_severity [OF run [of "''critical''"] sev [symmetric]]
    send_alert_channels_by_severity [OF run [of "''moderate''"] sev [symmetric]]
    send_alert_channels_by_severity [OF run [of "''low''"] sev [symmetric]]
  show ?thesis by simp
qed

text \<open>
  Claim C9. When the severity of the input is none of the strings critical, high and
  moderate (any other string, or a value that is not a string), \<open>send_alert\<close> attempts
  the in-app channel and no other, and the alert it returns is stored in the alert map
  under its id with status active.
\<close>

theorem send_alert_other_severity_in_app:
  assumes "send_alert env alert_data w = (r, w')"
    and "sev = dict_get alert_data ''severity'' (PStr ''moderate'')"
    and "sev \<noteq> PStr ''critical''" and "sev \<noteq> PStr ''high''" and "sev \<noteq> PStr ''moderate''"
  shows "channels_attempted (new_events w w') = [InApp]
       \<and> (\<exists>alert. r = Inr alert
            \<and> channels_sent alert = PList [PStr ''in_app'']
            \<and> dict_get alert ''status'' PNone = PStr ''active''
            \<and> map_of (alerts w') (uuid4 env (ticks w)) = Some alert)"
proof -
  have chs: "select_channels (dict_get alert_data ''severity'' (PStr ''moderate'')) = [InApp]"
    using assms(2-5) by (simp add: select_channels_def)
  from send_alert_outcome [OF assms(1)] show ?thesis
    by (auto simp: chs)
qed

text \<open>The statement at the unrecognised severity \<open>urgent\<close>.\<close>

theorem send_alert_other_severity_in_app_witness:
  "channels_attempted (new_events empty_world
       (snd (send_alert quiet_env (flood_alert ''urgent'' (PStr ''rising'')) empty_world))) = [InApp]
   \<and> (\<exists>alert. fst (send_alert quiet_env (flood_alert ''urgent'' (PStr ''rising'')) empty_world) = Inr alert
        \<and> channels_sent alert = PList [PStr ''in_app'']
        \<and> dict_get alert ''status'' PNone = PStr ''active''
        \<and> map_of (alerts (snd (send_alert quiet_env (flood_alert ''urgent'' (PStr ''rising'')) empty_world))) ''a''
            = Some alert)"
proof -
  have sev: "PStr ''urgent'' = dict_get (flood_alert ''urgent'' (PStr ''rising'')) ''severity'' (PStr ''moderate'')"
    by (simp add: flood_alert_def dict_get_def)
  have run: "send_alert quiet_env (flood_alert ''urgent'' (PStr ''rising'')) empty_world
      = (fst (send_alert quiet_env (flood_alert ''urgent'' (PStr ''rising'')) empty_world),
         snd (send_alert quiet_env (flood_alert ''urgent'' (PStr ''rising'')) empty_world))"
    by simp
  have a: "PStr ''urgent'' \<noteq> PStr ''critical''" and b: "PStr ''urgent'' \<noteq> PStr ''high''"
    and c: "PStr ''urgent'' \<noteq> PStr ''moderate''"
    by simp_all
  from send_alert_other_severity_in_app [OF run sev a b c] show ?thesis
    by (simp add: first_id)
qed




subsection \<open>The broadcast fan-out\<close>

lemma sent_messages_append [simp]:
  "sent_messages (xs @ ys) = sent_messages xs @ sent_messages ys"
  by (induction xs rule: sent_messages.induct) auto

lemma sent_messages_map_SentJson [simp]:
  "sent_messages (map (\<lambda>c. SentJson c m) cs) = map (\<lambda>c. (c, m)) cs"
  by (induction cs) auto

lemma sweep_eq:
  "sweep env m cs d w =
     (Inr (fold (\<lambda>c d. if send_json_raises env c m then List.insert c d else d) cs d),
      w\<lparr>trace := trace w @ map (\<lambda>c. SentJson c m) (filter (\<lambda>c. \<not> send_json_raises env c m) cs)\<rparr>)"
proof (induction cs arbitrary: d w)
  case Nil
  show ?case by (simp add: returns_def)
next
  case (Cons c cs)
  show ?case
  proof (cases "send_json_raises env c m")
    case True
    then have "try_except (andthen (send_json env c m) (\<lambda>_. returns d))
                 (\<lambda>e. returns (List.insert c d)) w = (Inr (List.insert c d), w)"
      by (simp add: try_except_def andthen_def send_json_def raises_def returns_def)
    then show ?thesis
      using True by (simp add: andthen_def Cons.IH)
  next
    case False
    then have "try_except (andthen (send_json env c m) (\<lambda>_. returns d))
                 (\<lambda>e. returns (List.insert c d)) w
               = (Inr d, w\<lparr>trace := trace w @ [SentJson c m]\<rparr>)"
      by (simp add: try_except_def andthen_def send_json_def emit_def returns_def)
    then show ?thesis
      using False by (simp add: andthen_def Cons.IH)
  qed
qed

lemma set_fold_insert_failed:
  "set (fold (\<lambda>c d. if P c then List.insert c d else d) cs d) = set d \<union> {c \<in> set cs. P c}"
  by (induction cs arbitrary: d) auto

lemma filter_removeAll_notin:
  "filter (\<lambda>c. c \<notin> set ds) (removeAll d xs) = filter (\<lambda>c. c \<noteq> d \<and> c \<notin> set ds) xs"
  by (induction xs) auto

lemma discard_all_eq:
  "discard_all ds w = (Inr (), w\<lparr>connected_clients := filter (\<lambda>c. c \<notin> set ds) (connected_clients w)\<rparr>)"
proof (induction ds arbitrary: w)
  case Nil
  show ?case by (simp add: returns_def)
next
  case (Cons d ds)
  show ?case
    by (simp add: andthen_def discard_def Cons.IH filter_removeAll_notin)
qed

lemma broadcast_update_eq:
  "broadcast_update env m w =
     (Inr (), w\<lparr>trace := trace w @ map (\<lambda>c. SentJson c m)
                      (filter (\<lambda>c. \<not> send_json_raises env c m) (connected_clients w)),
               connected_clients := filter (\<lambda>c. \<not> send_json_raises env c m) (connected_clients w)\<rparr>)"
proof (cases "connected_clients w = []")
  case True
  then show ?thesis by (simp add: broadcast_update_def returns_def)
next
  case False
  have "filter (\<lambda>c. c \<notin> set (fold (\<lambda>c d. if send_json_raises env c m then List.insert c d else d)
                                 (connected_clients w) [])) (connected_clients w)
      = filter (\<lambda>c. \<not> send_json_raises env c m) (connected_clients w)"
    by (rule filter_cong) (auto simp: set_fold_insert_failed)
  with False show ?thesis
    by (simp add: broadcast_update_def andthen_def sweep_eq discard_all_eq)
qed

lemma broadcast_alert_eq:
  "broadcast_alert env alert w =
     (let m = alert_message alert (utcnow env (ticks w)) in
      (Inr (), w\<lparr>ticks := Suc (ticks w),
                trace := trace w @ map (\<lambda>c. SentJson c m)
                      (filter (\<lambda>c. \<not> send_json_raises env c m) (connected_clients w)),
                connected_clients := filter (\<lambda>c. \<not> send_json_raises env c m) (connected_clients w)\<rparr>))"
  by (simp add: broadcast_alert_def andthen_def read_utcnow_def broadcast_update_eq Let_def)

text \<open>
  Claim C6. In a registry of N clients in which client k's send fails and every other
  client's send succeeds, one sweep of \<open>broadcast_update\<close> sends the message to each of the
  other N - 1 clients, and after the sweep client k is no longer in the registry while
  the other N - 1 are.
\<close>

theorem broadcast_update_drops_failing_client:
  assumes "broadcast_update env message w = (r, w')"
    and "distinct (connected_clients w)"
    and "k \<in> set (connected_clients w)"
    and "send_json_raises env k message"
    and "\<forall>c \<in> set (connected_clients w). c \<noteq> k \<longrightarrow> \<not> send_json_raises env c message"
  shows "r = Inr ()
       \<and> sent_messages (new_events w w') = map (\<lambda>c. (c, message)) (removeAll k (connected_clients w))
       \<and> set (map fst (sent_messages (new_events w w'))) = set (connected_clients w) - {k}
       \<and> length (sent_messages (new_events w w')) = length (connected_clients w) - 1
       \<and> k \<notin> set (connected_clients w')
       \<and> set (connected_clients w') = set (connected_clients w) - {k}
       \<and> distinct (connected_clients w')"
proof -
  have f: "filter (\<lambda>c. \<not> send_json_raises env c message) (connected_clients w)
         = removeAll k (connected_clients w)"
    unfolding removeAll_filter_not_eq
    by (rule filter_cong) (use assms(4,5) in auto)
  from assms(1) have r: "r = Inr ()"
    and w': "w' = w\<lparr>trace := trace w @ map (\<lambda>c. SentJson c message) (removeAll k (connected_clients w)),
                     connected_clients := removeAll k (connected_clients w)\<rparr>"
    by (simp_all add: broadcast_update_eq f)
  from w' have ne: "new_events w w' = map (\<lambda>c. SentJson c message) (removeAll k (connected_clients w))"
    by (simp add: new_events_append)
  have len: "length (removeAll k (connected_clients w)) = length (connected_clients w) - 1"
    using assms(2,3) by (simp add: distinct_remove1_removeAll [symmetric] length_remove1)
  have sm: "sent_messages (new_events w w') = map (\<lambda>c. (c, message)) (removeAll k (connected_clients w))"
    unfolding ne by simp
  have cc: "connected_clients w' = removeAll k (connected_clients w)"
    by (simp add: w')
  have fs: "map fst (map (\<lambda>c. (c, message)) (removeAll k (connected_clients w)))
      = removeAll k (connected_clients w)"
    by (simp add: comp_def)
  show ?thesis
    unfolding sm cc fs using r assms(2) by (auto simp: len distinct_removeAll)
qed


text \<open>The statement at the clients 1, 2, 3 where client 2 is down.\<close>

theorem broadcast_update_drops_failing_client_witness:
  "sent_messages (new_events three_clients_world
       (snd (broadcast_update client_two_down_env sample_update three_clients_world)))
     = [(1, sample_update), (3, sample_update)]
   \<and> connected_clients (snd (broadcast_update client_two_down_env sample_update three_clients_world))
     = [1, 3]
   \<and> fst (broadcast_update client_two_down_env sample_update three_clients_world) = Inr ()"
proof -
  have run: "broadcast_update client_two_down_env sample_update three_clients_world
      = (fst (broadcast_update client_two_down_env sample_update three_clients_world),
         snd (broadcast_update client_two_down_env sample_update three_clients_world))"
    by simp
  have cs: "connected_clients three_clients_world = [1, 2, 3]"
    by (simp add: three_clients_world_def)
  have d: "distinct (connected_clients three_clients_world)"
    and k: "2 \<in> set (connected_clients three_clients_world)"
    and down: "send_json_raises client_two_down_env 2 sample_update"
    and up: "\<forall>c \<in> set (connected_clients three_clients_world).
               c \<noteq> 2 \<longrightarrow> \<not> send_json_raises client_two_down_env c sample_update"
    by (simp_all add: cs client_two_down_env_def)
  have after: "connected_clients (snd (broadcast_update client_two_down_env sample_update three_clients_world))
      = [1, 3]"
    by code_simp
  from broadcast_update_drops_failing_client [OF run d k down up] after show ?thesis
    by (simp add: cs)
qed

lemma collection_cycle_eq:
  "collection_cycle env w =
     (case collect_data env (ticks w) of
        Inl e \<Rightarrow>
          (Inr (), w\<lparr>ticks := Suc (ticks w),
                    trace := trace w @ [LogInfo ''Collecting external environmental data'',
                                        LogError ''background data collection'' e, Sleep 60]\<rparr>)
      | Inr all_data \<Rightarrow>
          (let m = update_message all_data (utcnow env (Suc (ticks w))) in
           (Inr (), w\<lparr>ticks := Suc (Suc (ticks w)),
                     trace := trace w @ LogInfo ''Collecting external environmental data''
                        # map (\<lambda>c. SentJson c m)
                            (filter (\<lambda>c. \<not> send_json_raises env c m) (connected_clients w))
                        @ [Sleep 60],
                     connected_clients :=
                       filter (\<lambda>c. \<not> send_json_raises env c m) (connected_clients w)\<rparr>)))"
  by (simp add: collection_cycle_def try_except_def andthen_def emit_def read_collect_data_def
      read_utcnow_def broadcast_update_eq Let_def split: sum.splits)

text \<open>
  Claim C7, as amended. Every message that \<open>broadcast_alert\<close> or the data update of the
  collection loop sends to a client is a dictionary whose keys are exactly \<open>type\<close> (with
  value \<open>alert\<close> or \<open>sensor_update\<close>), \<open>data\<close> (the alert or the collected readings) and
  \<open>timestamp\<close> (the ISO string of the current time).
\<close>

theorem published_message_shape:
  "(broadcast_alert env alert w = (r, w') \<longrightarrow>
      (\<forall>(c, m) \<in> set (sent_messages (new_events w w')).
         dict_keys m = [''type'', ''data'', ''timestamp'']
         \<and> m = [(''type'', PStr ''alert''), (''data'', PDict alert),
                (''timestamp'', PStr (utcnow env (ticks w)))]))
   \<and> (collection_cycle env w = (r, w') \<longrightarrow>
      (\<forall>(c, m) \<in> set (sent_messages (new_events w w')).
         dict_keys m = [''type'', ''data'', ''timestamp'']
         \<and> (\<exists>all_data. collect_data env (ticks w) = Inr all_data
              \<and> m = [(''type'', PStr ''sensor_update''), (''data'', PDict all_data),
                     (''timestamp'', PStr (utcnow env (Suc (ticks w))))])))"
proof (intro conjI impI)
  assume run: "broadcast_alert env alert w = (r, w')"
  let ?m = "alert_message alert (utcnow env (ticks w))"
  from run have "new_events w w' = map (\<lambda>c. SentJson c ?m)
      (filter (\<lambda>c. \<not> send_json_raises env c ?m) (connected_clients w))"
    by (auto simp: broadcast_alert_eq Let_def new_events_append)
  then show "\<forall>(c, m) \<in> set (sent_messages (new_events w w')).
         dict_keys m = [''type'', ''data'', ''timestamp'']
         \<and> m = [(''type'', PStr ''alert''), (''data'', PDict alert),
                (''timestamp'', PStr (utcnow env (ticks w)))]"
    by (auto simp: alert_message_def dict_keys_def)
next
  assume run: "collection_cycle env w = (r, w')"
  show "\<forall>(c, m) \<in> set (sent_messages (new_events w w')).
         dict_keys m = [''type'', ''data'', ''timestamp'']
         \<and> (\<exists>all_data. collect_data env (ticks w) = Inr all_data
              \<and> m = [(''type'', PStr ''sensor_update''), (''data'', PDict all_data),
                     (''timestamp'', PStr (utcnow env (Suc (ticks w))))])"
  proof (cases "collect_data env (ticks w)")
    case (Inl e)
    with run have "new_events w w' = [LogInfo ''Collecting external environmental data'',
          LogError ''background data collection'' e, Sleep 60]"
      by (auto simp: collection_cycle_eq new_events_append)
    then show ?thesis by simp
  next
    case (Inr all_data)
    let ?m = "update_message all_data (utcnow env (Suc (ticks w)))"
    from run Inr have "new_events w w' = LogInfo ''Collecting external environmental data''
        # map (\<lambda>c. SentJson c ?m) (filter (\<lambda>c. \<not> send_json_raises env c ?m) (connected_clients w))
        @ [Sleep 60]"
      by (auto simp: collection_cycle_eq Let_def new_events_append)
    then show ?thesis
      using Inr by (auto simp: update_message_def dict_keys_def)
  qed
qed

text \<open>The statement at one connected client, for an alert and for a data update.\<close>

theorem published_message_shape_witness:
  "sent_messages (new_events one_client_world
      (snd (broadcast_alert quiet_env (flood_alert ''high'' (PStr ''rising'')) one_client_world)))
     = [(7, [(''type'', PStr ''alert''), (''data'', PDict (flood_alert ''high'' (PStr ''rising''))),
             (''timestamp'', PStr ''2024-05-01T10:00:00'')])]
   \<and> sent_messages (new_events one_client_world (snd (collection_cycle quiet_env one_client_world)))
     = [(7, [(''type'', PStr ''sensor_update''), (''data'', PDict []),
             (''timestamp'', PStr ''2024-05-01T10:00:00'')])]"
proof -
  have run1: "broadcast_alert quiet_env (flood_alert ''high'' (PStr ''rising'')) one_client_world
      = (fst (broadcast_alert quiet_env (flood_alert ''high'' (PStr ''rising'')) one_client_world),
         snd (broadcast_alert quiet_env (flood_alert ''high'' (PStr ''rising'')) one_client_world))"
    by simp
  have run2: "collection_cycle quiet_env one_client_world
      = (fst (collection_cycle quiet_env one_client_world), snd (collection_cycle quiet_env one_client_world))"
    by simp
  have s1: "map fst (sent_messages (new_events one_client_world
      (snd (broadcast_alert quiet_env (flood_alert ''high'' (PStr ''rising'')) one_client_world)))) = [7]"
    by code_simp
  have s2: "map fst (sent_messages (new_events one_client_world
      (snd (collection_cycle quiet_env one_client_world)))) = [7]"
    by code_simp
  have c: "collect_data quiet_env (ticks one_client_world) = Inr []"
    and t: "utcnow quiet_env n = ''2024-05-01T10:00:00''" for n
    by (simp_all add: quiet_env_def)
  from published_message_shape [of quiet_env "flood_alert ''high'' (PStr ''rising'')" one_client_world
      "fst (broadcast_alert quiet_env (flood_alert ''high'' (PStr ''rising'')) one_client_world)"
      "snd (broadcast_alert quiet_env (flood_alert ''high'' (PStr ''rising'')) one_client_world)"]
    run1 s1
  have a: "sent_messages (new_events one_client_world
      (snd (broadcast_alert quiet_env (flood_alert ''high'' (PStr ''rising'')) one_client_world)))
     = [(7, [(''type'', PStr ''alert''), (''data'', PDict (flood_alert ''high'' (PStr ''rising''))),
             (''timestamp'', PStr ''2024-05-01T10:00:00'')])]"
    by (auto simp: t map_eq_Cons_conv)
  from published_message_shape [of quiet_env "[]" one_client_world
      "fst (collection_cycle quiet_env one_client_world)"
      "snd (collection_cycle quiet_env one_client_world)"]
    run2 s2
  have b: "sent_messages (new_events one_client_world (snd (collection_cycle quiet_env one_client_world)))
     = [(7, [(''type'', PStr ''sensor_update''), (''data'', PDict []),
             (''timestamp'', PStr ''2024-05-01T10:00:00'')])]"
    by (auto simp: t c map_eq_Cons_conv)
  from a b show ?thesis by simp
qed

text \<open>
  Claim C7 as stated fails: the messages sent have the keys \<open>type\<close>, \<open>data\<close> and
  \<open>timestamp\<close>; there is no key \<open>kind\<close> and no key \<open>payload\<close>, and a data update has
  the type \<open>sensor_update\<close>.
\<close>

theorem published_message_keys_differ:
  "sent_messages (trace (snd (broadcast_alert quiet_env (flood_alert ''high'' (PStr ''rising'')) one_client_world)))
     = [(7, [(''type'', PStr ''alert''), (''data'', PDict (flood_alert ''high'' (PStr ''rising''))),
             (''timestamp'', PStr ''2024-05-01T10:00:00'')])]
   \<and> dict_keys [(''type'', PStr ''alert''), (''data'', PDict (flood_alert ''high'' (PStr ''rising''))),
             (''timestamp'', PStr ''2024-05-01T10:00:00'')] = [''type'', ''data'', ''timestamp'']
   \<and> ''kind'' \<notin> set [''type'', ''data'', ''timestamp'']
   \<and> ''payload'' \<notin> set [''type'', ''data'', ''timestamp'']
   \<and> sent_messages (trace (snd (collection_cycle quiet_env one_client_world)))
     = [(7, [(''type'', PStr ''sensor_update''), (''data'', PDict []),
             (''timestamp'', PStr ''2024-05-01T10:00:00'')])]"
  by code_simp

subsection \<open>The prediction loop\<close>

lemma evaluated_append [simp]: "evaluated (xs @ ys) = evaluated xs @ evaluated ys"
  by (induction xs rule: evaluated.induct) auto

lemma sleeps_append [simp]: "sleeps (xs @ ys) = sleeps xs @ sleeps ys"
  by (induction xs rule: sleeps.induct) auto

lemma evaluated_channel_events [simp]: "evaluated (channel_events env alert chs) = []"
  by (induction chs arbitrary: alert) (auto simp: channel_event_def)

lemma sleeps_channel_events [simp]: "sleeps (channel_events env alert chs) = []"
  by (induction chs arbitrary: alert) (auto simp: channel_event_def)

lemma evaluated_map_SentJson [simp]: "evaluated (map (\<lambda>c. SentJson c m) cs) = []"
  by (induction cs) auto

lemma sleeps_map_SentJson [simp]: "sleeps (map (\<lambda>c. SentJson c m) cs) = []"
  by (induction cs) auto

lemma send_alerts_outcome:
  "\<exists>w' evs. send_alerts env trig w = (Inr (), w') \<and> trace w' = trace w @ evs
     \<and> evaluated evs = [] \<and> sleeps evs = []"
proof (induction trig arbitrary: w)
  case Nil
  show ?case by (simp add: returns_def)
next
  case (Cons a trig)
  obtain w1 evs1 where s1: "send_alert env a w = (Inr (with_channels
        (new_alert (uuid4 env (ticks w)) (utcnow env (Suc (ticks w))) a)
        (select_channels (dict_get a ''severity'' (PStr ''moderate'')))), w1)"
    and t1: "trace w1 = trace w @ evs1" and e1: "evaluated evs1 = []" "sleeps evs1 = []"
    by (simp add: send_alert_eq Let_def)
  obtain w2 evs2 where s2: "broadcast_alert env a w1 = (Inr (), w2)"
    and t2: "trace w2 = trace w1 @ evs2" and e2: "evaluated evs2 = []" "sleeps evs2 = []"
    by (simp add: broadcast_alert_eq Let_def)
  from Cons.IH [of w2] obtain w3 evs3 where s3: "send_alerts env trig w2 = (Inr (), w3)"
    and t3: "trace w3 = trace w2 @ evs3" and e3: "evaluated evs3 = []" "sleeps evs3 = []"
    by blast
  have "send_alerts env (a # trig) w = (Inr (), w3)"
    by (simp add: andthen_def s1 s2 s3)
  moreover have "trace w3 = trace w @ (evs1 @ evs2 @ evs3)"
    by (simp add: t1 t2 t3)
  moreover have "evaluated (evs1 @ evs2 @ evs3) = []" "sleeps (evs1 @ evs2 @ evs3) = []"
    by (simp_all add: e1 e2 e3)
  ultimately show ?case by blast
qed

lemma process_location_raises:
  "evaluate_location env l = Inl e \<Longrightarrow>
   process_location env l w = (Inl e, w\<lparr>trace := trace w @ [Evaluated l]\<rparr>)"
  by (simp add: process_location_def andthen_def emit_def lift_def)

lemma process_location_returns:
  assumes "evaluate_location env l = Inr trig"
  shows "\<exists>w' evs. process_location env l w = (Inr (), w') \<and> trace w' = trace w @ evs
     \<and> evaluated evs = [l] \<and> sleeps evs = []"
proof -
  from send_alerts_outcome [of env trig "w\<lparr>trace := trace w @ [Evaluated l]\<rparr>"]
  obtain w' evs where s: "send_alerts env trig (w\<lparr>trace := trace w @ [Evaluated l]\<rparr>) = (Inr (), w')"
    and t: "trace w' = trace w @ [Evaluated l] @ evs" and e: "evaluated evs = []" "sleeps evs = []"
    by auto
  have "process_location env l w = (Inr (), w')"
    by (simp add: process_location_def andthen_def emit_def lift_def assms s)
  moreover have "evaluated ([Evaluated l] @ evs) = [l]" "sleeps ([Evaluated l] @ evs) = []"
    by (simp_all add: e)
  ultimately show ?thesis using t by blast
qed

lemma for_locations_returns:
  assumes "\<forall>l \<in> set ls. \<exists>trig. evaluate_location env l = Inr trig"
  shows "\<exists>w' evs. for_locations env ls w = (Inr (), w') \<and> trace w' = trace w @ evs
     \<and> evaluated evs = ls \<and> sleeps evs = []"
  using assms
proof (induction ls arbitrary: w)
  case Nil
  show ?case by (simp add: returns_def)
next
  case (Cons l ls)
  then obtain trig where "evaluate_location env l = Inr trig" by auto
  from process_location_returns [OF this, of w]
  obtain w1 evs1 where p: "process_location env l w = (Inr (), w1)"
    and t1: "trace w1 = trace w @ evs1" and e1: "evaluated evs1 = [l]" "sleeps evs1 = []"
    by blast
  from Cons.IH [of w1] Cons.prems
  obtain w2 evs2 where f: "for_locations env ls w1 = (Inr (), w2)"
    and t2: "trace w2 = trace w1 @ evs2" and e2: "evaluated evs2 = ls" "sleeps evs2 = []"
    by auto
  have "for_locations env (l # ls) w = (Inr (), w2)"
    by (simp add: andthen_def p f)
  moreover have "trace w2 = trace w @ (evs1 @ evs2)"
    by (simp add: t1 t2)
  moreover have "evaluated (evs1 @ evs2) = l # ls" "sleeps (evs1 @ evs2) = []"
    by (simp_all add: e1 e2)
  ultimately show ?case by blast
qed

lemma for_locations_raises:
  assumes "\<forall>l \<in> set pre. \<exists>trig. evaluate_location env l = Inr trig"
    and "evaluate_location env a = Inl e"
  shows "\<exists>w' evs. for_locations env (pre @ a # post) w = (Inl e, w') \<and> trace w' = trace w @ evs
     \<and> evaluated evs = pre @ [a] \<and> sleeps evs = []"
  using assms(1)
proof (induction pre arbitrary: w)
  case Nil
  show ?case
    by (rule exI [of _ "w\<lparr>trace := trace w @ [Evaluated a]\<rparr>"], rule exI [of _ "[Evaluated a]"])
      (simp add: andthen_def process_location_raises [OF assms(2)])
next
  case (Cons l pre)
  then obtain trig where "evaluate_location env l = Inr trig" by auto
  from process_location_returns [OF this, of w]
  obtain w1 evs1 where p: "process_location env l w = (Inr (), w1)"
    and t1: "trace w1 = trace w @ evs1" and e1: "evaluated evs1 = [l]" "sleeps evs1 = []"
    by blast
  from Cons.IH [of w1] Cons.prems
  obtain w2 evs2 where f: "for_locations env (pre @ a # post) w1 = (Inl e, w2)"
    and t2: "trace w2 = trace w1 @ evs2" and e2: "evaluated evs2 = pre @ [a]" "sleeps evs2 = []"
    by auto
  have "for_locations env ((l # pre) @ a # post) w = (Inl e, w2)"
    by (simp add: andthen_def p f)
  moreover have "trace w2 = trace w @ (evs1 @ evs2)"
    by (simp add: t1 t2)
  moreover have "evaluated (evs1 @ evs2) = (l # pre) @ [a]" "sleeps (evs1 @ evs2) = []"
    by (simp_all add: e1 e2)
  ultimately show ?case by blast
qed

lemma for_locations_outcome:
  "\<exists>r w' evs. for_locations env ls w = (r, w') \<and> trace w' = trace w @ evs \<and> sleeps evs = []"
proof (cases "\<forall>l \<in> set ls. \<exists>trig. evaluate_location env l = Inr trig")
  case True
  from for_locations_returns [OF True, of w] show ?thesis by blast
next
  case False
  then have "\<exists>l \<in> set ls. \<exists>e. evaluate_location env l = Inl e"
    by (meson sum.exhaust)
  then obtain pre a post e where ls: "ls = pre @ a # post"
    and a: "evaluate_location env a = Inl e"
    and pre: "\<forall>l \<in> set pre. \<not> (\<exists>e. evaluate_location env l = Inl e)"
    using split_list_first_prop [of ls "\<lambda>l. \<exists>e. evaluate_location env l = Inl e"] by blast
  from pre have "\<forall>l \<in> set pre. \<exists>trig. evaluate_location env l = Inr trig"
    by (meson sum.exhaust)
  from for_locations_raises [OF this a, of post w] show ?thesis
    unfolding ls by blast
qed

lemma prediction_cycle_outcome:
  "\<exists>w' evs. prediction_cycle env w = (Inr (), w') \<and> trace w' = trace w @ evs \<and> sleeps evs = [300]"
proof (cases "get_latest_sensor_data env (ticks w)")
  case (Inl e)
  then have "prediction_cycle env w =
      (Inr (), w\<lparr>ticks := Suc (ticks w),
                trace := trace w @ [LogInfo ''Running AI predictions'',
                                    LogError ''prediction loop'' e, Sleep 300]\<rparr>)"
    by (simp add: prediction_cycle_def try_except_def andthen_def emit_def read_sensor_data_def)
  moreover have "sleeps [LogInfo ''Running AI predictions'', LogError ''prediction loop'' e, Sleep 300] = [300]"
    by simp
  moreover have "trace (w\<lparr>ticks := Suc (ticks w),
                trace := trace w @ [LogInfo ''Running AI predictions'',
                                    LogError ''prediction loop'' e, Sleep 300]\<rparr>)
      = trace w @ [LogInfo ''Running AI predictions'', LogError ''prediction loop'' e, Sleep 300]"
    by simp
  ultimately show ?thesis by blast
next
  case (Inr sensor_data)
  let ?w1 = "w\<lparr>trace := trace w @ [LogInfo ''Running AI predictions''], ticks := Suc (ticks w)\<rparr>"
  have body: "prediction_cycle env w =
      try_except
        (andthen (if sensor_data \<noteq> [] then for_locations env sensor_data else returns ())
           (\<lambda>_. emit (Sleep 300)))
        (\<lambda>e. andthen (emit (LogError ''prediction loop'' e)) (\<lambda>_. emit (Sleep 300))) ?w1"
    using Inr
    by (simp add: prediction_cycle_def try_except_def andthen_def emit_def read_sensor_data_def)
  have "\<exists>r w2 evs. (if sensor_data \<noteq> [] then for_locations env sensor_data else returns ()) ?w1 = (r, w2)
      \<and> trace w2 = trace ?w1 @ evs \<and> sleeps evs = []"
    using for_locations_outcome [of env sensor_data ?w1] by (auto simp: returns_def)
  then obtain r w2 evs where run: "(if sensor_data \<noteq> [] then for_locations env sensor_data else returns ()) ?w1 = (r, w2)"
    and t2: "trace w2 = trace ?w1 @ evs" and e2: "sleeps evs = []"
    by blast
  show ?thesis
  proof (cases r)
    case (Inl e)
    have "prediction_cycle env w = (Inr (), w2\<lparr>trace := trace w2 @ [LogError ''prediction loop'' e, Sleep 300]\<rparr>)"
      unfolding body using run Inl by (simp add: try_except_def andthen_def emit_def)
    moreover have "trace (w2\<lparr>trace := trace w2 @ [LogError ''prediction loop'' e, Sleep 300]\<rparr>)
        = trace w @ (LogInfo ''Running AI predictions'' # evs @ [LogError ''prediction loop'' e, Sleep 300])"
      by (simp add: t2)
    moreover have "sleeps (LogInfo ''Running AI predictions'' # evs @ [LogError ''prediction loop'' e, Sleep 300]) = [300]"
      by (simp add: e2)
    ultimately show ?thesis by blast
  next
    case (Inr u)
    have "prediction_cycle env w = (Inr (), w2\<lparr>trace := trace w2 @ [Sleep 300]\<rparr>)"
      unfolding body using run Inr by (simp add: try_except_def andthen_def emit_def)
    moreover have "trace (w2\<lparr>trace := trace w2 @ [Sleep 300]\<rparr>)
        = trace w @ (LogInfo ''Running AI predictions'' # evs @ [Sleep 300])"
      by (simp add: t2)
    moreover have "sleeps (LogInfo ''Running AI predictions'' # evs @ [Sleep 300]) = [300]"
      by (simp add: e2)
    ultimately show ?thesis by blast
  qed
qed

lemma background_prediction_loop_outcome:
  "\<exists>w' evs. background_prediction_loop env n w = (None, w') \<and> trace w' = trace w @ evs
     \<and> sleeps evs = replicate n 300"
proof (induction n arbitrary: w)
  case 0
  show ?case by simp
next
  case (Suc n)
  from prediction_cycle_outcome [of env w]
  obtain w1 evs1 where c: "prediction_cycle env w = (Inr (), w1)"
    and t1: "trace w1 = trace w @ evs1" and e1: "sleeps evs1 = [300]"
    by blast
  from Suc.IH [of w1]
  obtain w2 evs2 where l: "background_prediction_loop env n w1 = (None, w2)"
    and t2: "trace w2 = trace w1 @ evs2" and e2: "sleeps evs2 = replicate n 300"
    by blast
  have "background_prediction_loop env (Suc n) w = (None, w2)"
    by (simp add: c l)
  moreover have "trace w2 = trace w @ (evs1 @ evs2)"
    by (simp add: t1 t2)
  moreover have "sleeps (evs1 @ evs2) = replicate (Suc n) 300"
    by (simp add: e1 e2)
  ultimately show ?case by blast
qed


lemma alerts_created_append [simp]:
  "alerts_created (xs @ ys) = alerts_created xs @ alerts_created ys"
  by (induction xs rule: alerts_created.induct) auto

lemma alerts_created_channel_events [simp]: "alerts_created (channel_events env alert chs) = []"
  by (induction chs arbitrary: alert) (auto simp: channel_event_def)

lemma alerts_created_map_SentJson [simp]: "alerts_created (map (\<lambda>c. SentJson c m) cs) = []"
  by (induction cs) auto

lemma channels_attempted_map_SentJson [simp]: "channels_attempted (map (\<lambda>c. SentJson c m) cs) = []"
  by (induction cs) auto

lemma new_alert_type:
  "dict_get (new_alert aid now alert_data) ''type'' dflt = dict_get alert_data ''type'' (PStr ''unknown'')"
  by (simp add: new_alert_def dict_get_def)

lemma deliver_effects:
  "\<exists>evs. trace (deliver env a w) = trace w @ evs \<and> evaluated evs = [] \<and> sleeps evs = []
     \<and> alerts_created evs = [alert_kind a]
     \<and> channels_attempted evs = select_channels (snd (alert_kind a))"
  by (simp add: deliver_def send_alert_eq broadcast_alert_eq Let_def alert_kind_def
      dict_get_with_channels_other new_alert_type new_alert_severity)

lemma foldl_deliver_effects:
  "\<exists>evs. trace (foldl (\<lambda>w' a. deliver env a w') w trig) = trace w @ evs
     \<and> evaluated evs = [] \<and> sleeps evs = []
     \<and> alerts_created evs = map alert_kind trig
     \<and> channels_attempted evs = concat (map (\<lambda>a. select_channels (snd (alert_kind a))) trig)"
proof (induction trig arbitrary: w)
  case Nil
  show ?case by simp
next
  case (Cons a trig)
  from deliver_effects [of env a w]
  obtain evs1 where t1: "trace (deliver env a w) = trace w @ evs1"
    and e1: "evaluated evs1 = []" "sleeps evs1 = []" "alerts_created evs1 = [alert_kind a]"
      "channels_attempted evs1 = select_channels (snd (alert_kind a))"
    by blast
  from Cons.IH [of "deliver env a w"]
  obtain evs2 where t2: "trace (foldl (\<lambda>w' a. deliver env a w') (deliver env a w) trig)
        = trace (deliver env a w) @ evs2"
    and e2: "evaluated evs2 = []" "sleeps evs2 = []" "alerts_created evs2 = map alert_kind trig"
      "channels_attempted evs2 = concat (map (\<lambda>a. select_channels (snd (alert_kind a))) trig)"
    by blast
  have "trace (foldl (\<lambda>w' a. deliver env a w') w (a # trig)) = trace w @ (evs1 @ evs2)"
    by (simp add: t1 t2)
  moreover have "evaluated (evs1 @ evs2) = []" "sleeps (evs1 @ evs2) = []"
    "alerts_created (evs1 @ evs2) = map alert_kind (a # trig)"
    "channels_attempted (evs1 @ evs2)
       = concat (map (\<lambda>a. select_channels (snd (alert_kind a))) (a # trig))"
    by (simp_all add: e1 e2)
  ultimately show ?case by blast
qed

lemma send_alerts_eq:
  "send_alerts env trig w = (Inr (), foldl (\<lambda>w' a. deliver env a w') w trig)"
proof (induction trig arbitrary: w)
  case Nil
  show ?case by (simp add: returns_def)
next
  case (Cons a trig)
  define w1 where "w1 = snd (send_alert env a w)"
  define w2 where "w2 = snd (broadcast_alert env a w1)"
  have "\<exists>x. send_alert env a w = (Inr x, w1)"
    unfolding w1_def by (simp add: send_alert_eq Let_def)
  then obtain x where s: "send_alert env a w = (Inr x, w1)" ..
  have b: "broadcast_alert env a w1 = (Inr (), w2)"
    unfolding w2_def by (simp add: broadcast_alert_eq Let_def)
  have d: "deliver env a w = w2"
    by (simp add: deliver_def w1_def w2_def)
  have "send_alerts env (a # trig) w = send_alerts env trig w2"
    by (simp add: andthen_def s b)
  then show ?case
    by (simp add: Cons.IH d)
qed

lemma process_location_eq:
  "evaluate_location env l = Inr trig \<Longrightarrow> process_location env l w = (Inr (), processed env l w)"
  by (simp add: process_location_def andthen_def emit_def lift_def send_alerts_eq processed_def
      triggered_def)

lemma processed_effects:
  "\<exists>evs. trace (processed env l w) = trace w @ evs \<and> evaluated evs = [l] \<and> sleeps evs = []
     \<and> alerts_created evs = map alert_kind (triggered env l)
     \<and> channels_attempted evs
         = concat (map (\<lambda>a. select_channels (snd (alert_kind a))) (triggered env l))"
proof -
  from foldl_deliver_effects [of env "w\<lparr>trace := trace w @ [Evaluated l]\<rparr>" "triggered env l"]
  obtain evs where t: "trace (processed env l w) = trace w @ ([Evaluated l] @ evs)"
    and e: "evaluated evs = []" "sleeps evs = []" "alerts_created evs = map alert_kind (triggered env l)"
      "channels_attempted evs
         = concat (map (\<lambda>a. select_channels (snd (alert_kind a))) (triggered env l))"
    by (auto simp: processed_def)
  have "evaluated ([Evaluated l] @ evs) = [l]" "sleeps ([Evaluated l] @ evs) = []"
    "alerts_created ([Evaluated l] @ evs) = map alert_kind (triggered env l)"
    "channels_attempted ([Evaluated l] @ evs)
       = concat (map (\<lambda>a. select_channels (snd (alert_kind a))) (triggered env l))"
    by (simp_all add: e)
  with t show ?thesis by blast
qed

lemma foldl_processed_effects:
  "\<exists>evs. trace (foldl (\<lambda>w' l. processed env l w') w ls) = trace w @ evs
     \<and> evaluated evs = ls \<and> sleeps evs = []
     \<and> alerts_created evs = concat (map (\<lambda>l. map alert_kind (triggered env l)) ls)
     \<and> channels_attempted evs
         = concat (map (\<lambda>l. concat (map (\<lambda>a. select_channels (snd (alert_kind a)))
                                      (triggered env l))) ls)"
proof (induction ls arbitrary: w)
  case Nil
  show ?case by simp
next
  case (Cons l ls)
  from processed_effects [of env l w]
  obtain evs1 where t1: "trace (processed env l w) = trace w @ evs1"
    and e1: "evaluated evs1 = [l]" "sleeps evs1 = []"
      "alerts_created evs1 = map alert_kind (triggered env l)"
      "channels_attempted evs1
         = concat (map (\<lambda>a. select_channels (snd (alert_kind a))) (triggered env l))"
    by blast
  from Cons.IH [of "processed env l w"]
  obtain evs2 where t2: "trace (foldl (\<lambda>w' l. processed env l w') (processed env l w) ls)
        = trace (processed env l w) @ evs2"
    and e2: "evaluated evs2 = ls" "sleeps evs2 = []"
      "alerts_created evs2 = concat (map (\<lambda>l. map alert_kind (triggered env l)) ls)"
      "channels_attempted evs2
         = concat (map (\<lambda>l. concat (map (\<lambda>a. select_channels (snd (alert_kind a)))
                                      (triggered env l))) ls)"
    by blast
  have "trace (foldl (\<lambda>w' l. processed env l w') w (l # ls)) = trace w @ (evs1 @ evs2)"
    by (simp add: t1 t2)
  moreover have "evaluated (evs1 @ evs2) = l # ls" "sleeps (evs1 @ evs2) = []"
    "alerts_created (evs1 @ evs2) = concat (map (\<lambda>l. map alert_kind (triggered env l)) (l # ls))"
    "channels_attempted (evs1 @ evs2)
       = concat (map (\<lambda>l. concat (map (\<lambda>a. select_channels (snd (alert_kind a)))
                                    (triggered env l))) (l # ls))"
    by (simp_all add: e1 e2)
  ultimately show ?case by blast
qed

lemma for_locations_raises_eq:
  assumes "\<forall>l \<in> set pre. \<exists>trig. evaluate_location env l = Inr trig"
    and "evaluate_location env a = Inl e"
  shows "for_locations env (pre @ a # post) w =
     (Inl e, (foldl (\<lambda>w' l. processed env l w') w pre)
               \<lparr>trace := trace (foldl (\<lambda>w' l. processed env l w') w pre) @ [Evaluated a]\<rparr>)"
  using assms(1)
proof (induction pre arbitrary: w)
  case Nil
  show ?case
    by (simp add: andthen_def process_location_raises [OF assms(2)])
next
  case (Cons l pre)
  then obtain trig where "evaluate_location env l = Inr trig" by auto
  then have p: "process_location env l w = (Inr (), processed env l w)"
    by (rule process_location_eq)
  from Cons.IH [of "processed env l w"] Cons.prems show ?case
    by (simp add: andthen_def p)
qed


text \<open>
  Claim C4, as amended. When, in one pass of the prediction loop over a sequence of
  locations, processing one location raises, the locations before it have been processed
  in full: the world the pass leaves is the one in which each of them was evaluated and
  every alert triggered for it went through \<open>send_alert\<close> and \<open>broadcast_alert\<close>, in order,
  so that one alert is logged as created, with its channels attempted, for every such
  alert and for no other. The locations after the raising one are not processed in that
  pass. The exception is logged, and the loop sleeps its full 300 seconds and goes on:
  after any number of passes it is still running and has slept 300 seconds once per pass.
\<close>

theorem prediction_cycle_stops_at_raising_location:
  assumes "get_latest_sensor_data env (ticks w) = Inr (pre @ a # post)"
    and "\<forall>l \<in> set pre. \<exists>trig. evaluate_location env l = Inr trig"
    and "evaluate_location env a = Inl e"
    and "prediction_cycle env w = (r, w')"
  shows "r = Inr ()
       \<and> w' = (let w2 = foldl (\<lambda>w1 l. processed env l w1)
                         (w\<lparr>trace := trace w @ [LogInfo ''Running AI predictions''],
                            ticks := Suc (ticks w)\<rparr>) pre
               in w2\<lparr>trace := trace w2 @ [Evaluated a, LogError ''prediction loop'' e, Sleep 300]\<rparr>)
       \<and> evaluated (new_events w w') = pre @ [a]
       \<and> alerts_created (new_events w w') = concat (map (\<lambda>l. map alert_kind (triggered env l)) pre)
       \<and> channels_attempted (new_events w w')
           = concat (map (\<lambda>l. concat (map (\<lambda>x. select_channels (snd (alert_kind x)))
                                        (triggered env l))) pre)
       \<and> LogError ''prediction loop'' e \<in> set (new_events w w')
       \<and> sleeps (new_events w w') = [300]
       \<and> (\<forall>n. fst (background_prediction_loop env n w) = None
              \<and> sleeps (new_events w (snd (background_prediction_loop env n w))) = replicate n 300)"
proof -
  let ?w1 = "w\<lparr>trace := trace w @ [LogInfo ''Running AI predictions''], ticks := Suc (ticks w)\<rparr>"
  define w2 where "w2 = foldl (\<lambda>w1 l. processed env l w1) ?w1 pre"
  have f: "for_locations env (pre @ a # post) ?w1 = (Inl e, w2\<lparr>trace := trace w2 @ [Evaluated a]\<rparr>)"
    unfolding w2_def by (rule for_locations_raises_eq [OF assms(2,3)])
  have "prediction_cycle env w
      = (Inr (), w2\<lparr>trace := trace w2 @ [Evaluated a, LogError ''prediction loop'' e, Sleep 300]\<rparr>)"
    using assms(1) f
    by (simp add: prediction_cycle_def try_except_def andthen_def emit_def read_sensor_data_def)
  with assms(4) have r: "r = Inr ()"
    and w': "w' = w2\<lparr>trace := trace w2 @ [Evaluated a, LogError ''prediction loop'' e, Sleep 300]\<rparr>"
    by simp_all
  from foldl_processed_effects [of env ?w1 pre]
  obtain evs where t2: "trace w2 = trace ?w1 @ evs"
    and e2: "evaluated evs = pre" "sleeps evs = []"
      "alerts_created evs = concat (map (\<lambda>l. map alert_kind (triggered env l)) pre)"
      "channels_attempted evs
         = concat (map (\<lambda>l. concat (map (\<lambda>x. select_channels (snd (alert_kind x)))
                                      (triggered env l))) pre)"
    unfolding w2_def by blast
  have "trace w' = trace w @ (LogInfo ''Running AI predictions'' # evs
      @ [Evaluated a, LogError ''prediction loop'' e, Sleep 300])"
    by (simp add: w' t2)
  then have ne: "new_events w w' = LogInfo ''Running AI predictions'' # evs
      @ [Evaluated a, LogError ''prediction loop'' e, Sleep 300]"
    by (rule new_events_append)
  have loop: "fst (background_prediction_loop env n w) = None
      \<and> sleeps (new_events w (snd (background_prediction_loop env n w))) = replicate n 300" for n
  proof -
    from background_prediction_loop_outcome [of env n w]
    obtain w3 evs3 where l: "background_prediction_loop env n w = (None, w3)"
      and t3: "trace w3 = trace w @ evs3" and e3: "sleeps evs3 = replicate n 300"
      by blast
    from t3 have "new_events w w3 = evs3" by (rule new_events_append)
    with l e3 show ?thesis by simp
  qed
  have world: "w' = (let w2 = foldl (\<lambda>w1 l. processed env l w1) ?w1 pre
               in w2\<lparr>trace := trace w2 @ [Evaluated a, LogError ''prediction loop'' e, Sleep 300]\<rparr>)"
    unfolding Let_def w' w2_def ..
  have ev: "evaluated (new_events w w') = pre @ [a]"
    and ac: "alerts_created (new_events w w') = concat (map (\<lambda>l. map alert_kind (triggered env l)) pre)"
    and ca: "channels_attempted (new_events w w')
           = concat (map (\<lambda>l. concat (map (\<lambda>x. select_channels (snd (alert_kind x)))
                                        (triggered env l))) pre)"
    and le: "LogError ''prediction loop'' e \<in> set (new_events w w')"
    and sl: "sleeps (new_events w w') = [300]"
    by (simp_all add: ne e2)
  from r world ev ac ca le sl loop show ?thesis
    by blast
qed

text \<open>
  The statement at the locations Hilltop, Riverside, Hilltop with one client connected:
  Hilltop triggers a high flood alert, Riverside raises. The alert of the first Hilltop
  is created, dispatched on four channels, stored and sent to the client; the second
  Hilltop is not reached.
\<close>

theorem prediction_cycle_stops_at_raising_location_witness:
  "fst (prediction_cycle hilltop_first_env one_client_world) = Inr ()
   \<and> evaluated (new_events one_client_world (snd (prediction_cycle hilltop_first_env one_client_world)))
       = [hilltop, riverside]
   \<and> alerts_created (new_events one_client_world (snd (prediction_cycle hilltop_first_env one_client_world)))
       = [(PStr ''flood'', PStr ''high'')]
   \<and> channels_attempted (new_events one_client_world (snd (prediction_cycle hilltop_first_env one_client_world)))
       = [Push, Sms, Email, Webhook]
   \<and> sleeps (new_events one_client_world (snd (prediction_cycle hilltop_first_env one_client_world)))
       = [300]
   \<and> fst (background_prediction_loop hilltop_first_env 3 one_client_world) = None
   \<and> sleeps (new_events one_client_world (snd (background_prediction_loop hilltop_first_env 3 one_client_world)))
       = [300, 300, 300]
   \<and> map fst (alerts (snd (prediction_cycle hilltop_first_env one_client_world))) = [''aa'']
   \<and> sent_messages (trace (snd (prediction_cycle hilltop_first_env one_client_world)))
       = [(7, alert_message (flood_alert ''high'' (PStr ''rising'')) ''2024-05-01T10:00:00'')]"
proof -
  have d: "get_latest_sensor_data hilltop_first_env (ticks one_client_world)
      = Inr ([hilltop] @ riverside # [hilltop])"
    by (simp add: hilltop_first_env_def)
  have h: "evaluate_location hilltop_first_env hilltop = Inr [flood_alert ''high'' (PStr ''rising'')]"
    by (simp add: hilltop_first_env_def riverside_raises_env_def hilltop_def riverside_def)
  then have p: "\<forall>l \<in> set [hilltop]. \<exists>trig. evaluate_location hilltop_first_env l = Inr trig"
    by simp
  have a: "evaluate_location hilltop_first_env riverside = Inl (PyError ''KeyError'')"
    by (simp add: hilltop_first_env_def riverside_raises_env_def)
  have run: "prediction_cycle hilltop_first_env one_client_world
      = (fst (prediction_cycle hilltop_first_env one_client_world),
         snd (prediction_cycle hilltop_first_env one_client_world))"
    by simp
  have three: "replicate 3 (300::nat) = [300, 300, 300]"
    by (simp add: numeral_3_eq_3)
  have t: "triggered hilltop_first_env hilltop = [flood_alert ''high'' (PStr ''rising'')]"
    by (simp add: triggered_def h)
  have k: "alert_kind (flood_alert ''high'' (PStr ''rising'')) = (PStr ''flood'', PStr ''high'')"
    by (simp add: alert_kind_def flood_alert_def dict_get_def)
  have c: "select_channels (PStr ''high'') = [Push, Sms, Email, Webhook]"
    by (simp add: select_channels_def)
  have stored: "map fst (alerts (snd (prediction_cycle hilltop_first_env one_client_world))) = [''aa'']"
    by code_simp
  have sent: "sent_messages (trace (snd (prediction_cycle hilltop_first_env one_client_world)))
       = [(7, alert_message (flood_alert ''high'' (PStr ''rising'')) ''2024-05-01T10:00:00'')]"
    by code_simp
  note cycle = prediction_cycle_stops_at_raising_location [OF d p a run]
  from cycle have 1: "fst (prediction_cycle hilltop_first_env one_client_world) = Inr ()"
    by blast
  from cycle have "evaluated (new_events one_client_world
      (snd (prediction_cycle hilltop_first_env one_client_world))) = [hilltop] @ [riverside]"
    by blast
  then have 2: "evaluated (new_events one_client_world
      (snd (prediction_cycle hilltop_first_env one_client_world))) = [hilltop, riverside]"
    by simp
  from cycle have "alerts_created (new_events one_client_world
      (snd (prediction_cycle hilltop_first_env one_client_world)))
      = concat (map (\<lambda>l. map alert_kind (triggered hilltop_first_env l)) [hilltop])"
    by blast
  then have 3: "alerts_created (new_events one_client_world
      (snd (prediction_cycle hilltop_first_env one_client_world))) = [(PStr ''flood'', PStr ''high'')]"
    by (simp add: t k)
  from cycle have "channels_attempted (new_events one_client_world
      (snd (prediction_cycle hilltop_first_env one_client_world)))
      = concat (map (\<lambda>l. concat (map (\<lambda>x. select_channels (snd (alert_kind x)))
                                   (triggered hilltop_first_env l))) [hilltop])"
    by blast
  then have 4: "channels_attempted (new_events one_client_world
      (snd (prediction_cycle hilltop_first_env one_client_world))) = [Push, Sms, Email, Webhook]"
    by (simp add: t k c)
  from cycle have 5: "sleeps (new_events one_client_world
      (snd (prediction_cycle hilltop_first_env one_client_world))) = [300]"
    by blast
  from cycle have "fst (background_prediction_loop hilltop_first_env 3 one_client_world) = None
      \<and> sleeps (new_events one_client_world
            (snd (background_prediction_loop hilltop_first_env 3 one_client_world))) = replicate 3 300"
    by blast
  then have 6: "fst (background_prediction_loop hilltop_first_env 3 one_client_world) = None"
    and 7: "sleeps (new_events one_client_world
            (snd (background_prediction_loop hilltop_first_env 3 one_client_world))) = [300, 300, 300]"
    by (simp_all add: three)
  from 1 2 3 4 5 6 7 stored sent show ?thesis
    by blast
qed

text \<open>
  Claim C4 as stated fails: with the locations Riverside and Hilltop, Riverside raising
  and Hilltop due to trigger an alert, the pass logs the error and sleeps; Hilltop is
  never evaluated and no alert is stored.
\<close>

theorem prediction_cycle_skips_later_location:
  "get_latest_sensor_data riverside_raises_env (ticks empty_world) = Inr [riverside, hilltop]
   \<and> evaluate_location riverside_raises_env hilltop = Inr [flood_alert ''high'' (PStr ''rising'')]
   \<and> trace (snd (prediction_cycle riverside_raises_env empty_world))
       = [LogInfo ''Running AI predictions'', Evaluated riverside,
          LogError ''prediction loop'' (PyError ''KeyError''), Sleep 300]
   \<and> evaluated (trace (snd (prediction_cycle riverside_raises_env empty_world))) = [riverside]
   \<and> hilltop \<notin> set (evaluated (trace (snd (prediction_cycle riverside_raises_env empty_world))))
   \<and> alerts (snd (prediction_cycle riverside_raises_env empty_world)) = []"
  by code_simp

subsection \<open>The manual alert endpoint\<close>



subsection \<open>Risk status\<close>

text \<open>
  Claim C5, as amended. For every risk score s on the 0..100 scale (the predictors pass
  s / 100), the status functions are total with strict bands: above 80 critical, above 60
  up to 80 high, above 40 up to 60 moderate, above 20 up to 40 low, and up to 20 the
  minimal status; \<open>FirePredictor\<close> has the same thresholds with its own five labels. Off
  the four boundary values the flood status is the band of the specification.
\<close>

theorem risk_status_bands:
  "(flood_get_risk_status (s / 100) = FloodCritical \<longleftrightarrow> 80 < s)
   \<and> (flood_get_risk_status (s / 100) = FloodHigh \<longleftrightarrow> 60 < s \<and> s \<le> 80)
   \<and> (flood_get_risk_status (s / 100) = FloodModerate \<longleftrightarrow> 40 < s \<and> s \<le> 60)
   \<and> (flood_get_risk_status (s / 100) = FloodLow \<longleftrightarrow> 20 < s \<and> s \<le> 40)
   \<and> (flood_get_risk_status (s / 100) = FloodMinimal \<longleftrightarrow> s \<le> 20)
   \<and> (fire_get_risk_status (s / 100) = FireExtreme \<longleftrightarrow> 80 < s)
   \<and> (fire_get_risk_status (s / 100) = FireVeryHigh \<longleftrightarrow> 60 < s \<and> s \<le> 80)
   \<and> (fire_get_risk_status (s / 100) = FireHigh \<longleftrightarrow> 40 < s \<and> s \<le> 60)
   \<and> (fire_get_risk_status (s / 100) = FireModerate \<longleftrightarrow> 20 < s \<and> s \<le> 40)
   \<and> (fire_get_risk_status (s / 100) = FireLow \<longleftrightarrow> s \<le> 20)
   \<and> (s \<notin> {80, 60, 40, 20} \<longrightarrow> flood_band (flood_get_risk_status (s / 100)) = spec_severity s)"
  by (simp add: flood_get_risk_status_def fire_get_risk_status_def spec_severity_def)

text \<open>The statement at the scores 85 and 60.\<close>

theorem risk_status_bands_witness:
  "flood_get_risk_status (85 / 100) = FloodCritical
   \<and> fire_get_risk_status (85 / 100) = FireExtreme
   \<and> flood_band (flood_get_risk_status (85 / 100)) = spec_severity 85
   \<and> flood_get_risk_status (60 / 100) = FloodModerate"
proof -
  have "(85::real) \<notin> {80, 60, 40, 20}" by simp
  with risk_status_bands [of 85] risk_status_bands [of 60] show ?thesis
    by (simp add: spec_severity_def)
qed

text \<open>
  Claim C5 as stated fails: each boundary value maps to the lower band, not the higher.
\<close>

theorem risk_status_boundary_lower_band:
  "spec_severity 80 = Some Critical \<and> flood_get_risk_status (80 / 100) = FloodHigh
   \<and> fire_get_risk_status (80 / 100) = FireVeryHigh
   \<and> spec_severity 60 = Some High \<and> flood_get_risk_status (60 / 100) = FloodModerate
   \<and> spec_severity 40 = Some Moderate \<and> flood_get_risk_status (40 / 100) = FloodLow
   \<and> spec_severity 20 = Some Low \<and> flood_get_risk_status (20 / 100) = FloodMinimal"
  by (simp add: flood_get_risk_status_def fire_get_risk_status_def spec_severity_def)

end
